theory Spec2Isabelle
  imports Main "HOL-Library.AList" "HOL-Library.Sublist"
begin

section \<open>The GitHub subscriber item (pkg/subscriber/github/subscriber\_item.go)\<close>

text \<open>
  A shallow embedding of \<^verbatim>\<open>subscriber_item.go\<close>. Every method of the Go type
  \<^verbatim>\<open>SubscriberItem\<close> that a reconciliation cycle runs is a HOL function of the same
  name (\<^verbatim>\<open>Start\<close> and \<^verbatim>\<open>Stop\<close> only schedule the cycle). What the Go code gets from
  other packages (the Kubernetes client, the synchronizer, the file system, the YAML, JSON
  and semver libraries, package constants declared in other files) is a field of the
  environment records below, so every theorem holds for whatever those collaborators do.

  Conventions.
  \<^item> A Go \<^verbatim>\<open>map\<close> is an association list; \<^verbatim>\<open>range\<close> over the map visits the list in
    its order. Go leaves that order unspecified: the lists are inputs, so the theorems
    cover every order.
  \<^item> A Go pointer that the code compares with \<^verbatim>\<open>nil\<close> or dereferences unguarded is an
    \<open>option\<close>; dereferencing \<open>None\<close> is the outcome \<open>Panic NilPointerDereference\<close>.
  \<^item> Calls into the client, the synchronizer and the status helpers are recorded, in
    order, in a trace of events; such a call may answer differently each time, so its
    oracle reads the trace of the calls made before it.
  \<^item> \<^verbatim>\<open>klog\<close> calls have no effect on the program and are left out.
\<close>

subsection \<open>Go outcomes and errors\<close>

datatype panic = NilPointerDereference | IndexOutOfRange

datatype 'a outcome = Panic panic | Normal 'a

text \<open>A Go \<^verbatim>\<open>error\<close> value: its message, and whether \<^verbatim>\<open>kerrors.IsNotFound\<close> holds of it.\<close>

datatype error = Err string | NotFoundErr string

fun errorString :: "error \<Rightarrow> string" where
  "errorString (Err m) = m"
| "errorString (NotFoundErr m) = m"

fun IsNotFound :: "error \<Rightarrow> bool" where
  "IsNotFound (NotFoundErr m) = True"
| "IsNotFound (Err m) = False"

subsection \<open>Data model\<close>

record namespacedName =
  nn_namespace :: string
  nn_name :: string

definition nnString :: "namespacedName \<Rightarrow> string" where
  "nnString k = nn_namespace k @ ''/'' @ nn_name k"

record objectReference =
  or_name :: string
  or_namespace :: string

record channel =
  ch_name :: string
  ch_namespace :: string
  ch_pathName :: string
  ch_secretRef :: "objectReference option"
  ch_configMapRef :: "objectReference option"

text \<open>
  \<^verbatim>\<open>metav1.LabelSelector\<close> is only handed to \<^verbatim>\<open>utils.LabelChecker\<close>; its match labels
  stand for it.
\<close>

type_synonym labelSelector = "(string \<times> string) list"

record packageFilter =
  pf_labelSelector :: "labelSelector option"
  pf_annotations :: "(string \<times> string) list option"
  pf_version :: string
  pf_filterRef :: "string option"

record overrides =
  ov_packageName :: string
  ov_packageOverrides :: "string list"

record subscription =
  sub_name :: string
  sub_namespace :: string
  sub_apiVersion :: string
  sub_kind :: string
  sub_uid :: string
  sub_package :: string
  sub_packageFilter :: "packageFilter option"
  sub_packageOverrides :: "overrides list"

type_synonym configMap = "(string \<times> string) list"

record subscriberItem =
  Subscription :: "subscription option"
  Channel :: "channel option"
  SubscriptionConfigMap :: "configMap option"
  commitID :: string

record kubeResource =
  kr_apiVersion :: string
  kr_kind :: string

record unstructured =
  u_apiVersion :: string
  u_kind :: string
  u_name :: string
  u_namespace :: string
  u_labels :: "(string \<times> string) list"
  u_annotations :: "(string \<times> string) list"
  u_rest :: string

record groupVersionKind =
  gvk_group :: string
  gvk_version :: string
  gvk_kind :: string

definition gvkString :: "groupVersionKind \<Rightarrow> string" where
  "gvkString g = gvk_group g @ ''/'' @ gvk_version g @ '', Kind='' @ gvk_kind g"

record deployable =
  dpl_name :: string
  dpl_namespace :: string
  dpl_template :: string
  dpl_annotations :: "(string \<times> string) list"

record chartMetadata =
  md_name :: string
  md_version :: string
  md_tillerVersion :: string

record chartVersion =
  cv_name :: string
  cv_version :: string
  cv_tillerVersion :: string
  cv_urls :: "string list"
  cv_digest :: string

text \<open>\<^verbatim>\<open>repo.IndexFile.Entries\<close>: package name to chart versions.\<close>

type_synonym entries = "(string \<times> chartVersion list) list"

record ownerReference =
  own_apiVersion :: string
  own_kind :: string
  own_name :: string
  own_uid :: string

record helmReleaseSpec =
  hrs_sourceType :: string
  hrs_urls :: "string list"
  hrs_chartPath :: string
  hrs_configMapRef :: "objectReference option"
  hrs_secretRef :: "objectReference option"
  hrs_chartName :: string
  hrs_releaseName :: string
  hrs_version :: string

record helmRelease =
  hr_apiVersion :: string
  hr_kind :: string
  hr_name :: string
  hr_namespace :: string
  hr_ownerReferences :: "ownerReference list"
  hr_spec :: helmReleaseSpec

record dplOverrides =
  do_clusterName :: string
  do_clusterOverrides :: "string list"

record fileInfo =
  fi_name :: string
  fi_regular :: bool

text \<open>One invocation of the callback that \<^verbatim>\<open>filepath.Walk\<close> makes.\<close>

record visit =
  v_path :: string
  v_isDir :: bool
  v_err :: "error option"

text \<open>A parsed semantic version: major, minor, patch.\<close>

type_synonym semver = "nat \<times> nat \<times> nat"

subsection \<open>Events: the calls that leave the subscriber item\<close>

datatype event =
    GetSecret namespacedName
  | MkdirAll string
  | RemoveAll string
  | PlainClone string string
  | GetConfigMap namespacedName
  | CreateValiadtor string
  | RegisterTemplate namespacedName deployable string
  | SetInClusterPackageStatus string error
  | AddValidResource groupVersionKind namespacedName namespacedName
  | ApplyValiadtor string
  | GetHelmRelease namespacedName
  | ValidatePackagesInSubscriptionStatus subscription "string list"
  | GetSubscription namespacedName

subsection \<open>The environment: libraries, file system, client and synchronizer\<close>

text \<open>Pure library functions and the constants the file takes from other files.\<close>

record libenv =
  githubk8ssyncsource :: string
  githubhelmsyncsource :: string
  AnnotationLocal :: string
  GitHubSourceType :: string
  semverParse :: "string \<Rightarrow> error + semver"
  semverParseRange :: "string \<Rightarrow> error + (semver \<Rightarrow> bool)"
  LabelChecker :: "labelSelector option \<Rightarrow> (string \<times> string) list \<Rightarrow> bool"
  filepathJoin :: "string list \<Rightarrow> string"
  filepathBase :: "string \<Rightarrow> string"
  stringsSplit :: "string \<Rightarrow> string \<Rightarrow> string list"
  stringsSplitAfter :: "string \<Rightarrow> string \<Rightarrow> string list"

text \<open>Encoders and decoders (\<^verbatim>\<open>yaml\<close>, \<^verbatim>\<open>json\<close>) and the two override engines.\<close>

record codecenv =
  yamlUnmarshalString :: "string \<Rightarrow> error + string"
  yamlKubeResource :: "string \<Rightarrow> kubeResource"
  yamlUnstructured :: "string \<Rightarrow> unstructured"
  objectGVK :: "unstructured \<Rightarrow> groupVersionKind"
  jsonMarshalResource :: "unstructured \<Rightarrow> error + string"
  OverrideResourceBySubscription :: "unstructured \<Rightarrow> string \<Rightarrow> subscription \<Rightarrow> error + unstructured"
  yamlMarshalRelease :: "helmRelease \<Rightarrow> error + string"
  yamlUnmarshalTemplate :: "string \<Rightarrow> unstructured"
  OverrideTemplate :: "unstructured \<Rightarrow> string list \<Rightarrow> error + unstructured"
  yamlMarshalTemplate :: "unstructured \<Rightarrow> error + string"
  yamlUnmarshalRelease :: "string \<Rightarrow> helmRelease \<Rightarrow> error + helmRelease"
  jsonMarshalRelease :: "helmRelease \<Rightarrow> error + string"

text \<open>The file system and the git library, as the cycle meets them.\<close>

record fsenv =
  tempDir :: string
  statNotExist :: "event list \<Rightarrow> string \<Rightarrow> bool"
  mkdirAll :: "event list \<Rightarrow> string \<Rightarrow> error option"
  removeAll :: "event list \<Rightarrow> string \<Rightarrow> error option"
  plainClone :: "event list \<Rightarrow> string \<Rightarrow> string \<Rightarrow> (string \<times> string) option \<Rightarrow> error option"
  repoHead :: "string \<Rightarrow> error + string"
  commitObject :: "string \<Rightarrow> string \<Rightarrow> error + string"
  walk :: "string \<Rightarrow> visit list"
  statOk :: "string \<Rightarrow> bool"
  readDir :: "string \<Rightarrow> error + fileInfo list"
  readFile :: "string \<Rightarrow> string"
  LoadChartfile :: "string \<Rightarrow> error + chartMetadata"
  indexAdd :: "entries \<Rightarrow> chartMetadata \<Rightarrow> string \<Rightarrow> string \<Rightarrow> string \<Rightarrow> entries"
  SortEntries :: "entries \<Rightarrow> entries"

text \<open>The Kubernetes client, the synchronizer and the status helpers.\<close>

record syncenv =
  getSecret :: "event list \<Rightarrow> namespacedName \<Rightarrow> error + (string \<times> string) list"
  getConfigMap :: "event list \<Rightarrow> namespacedName \<Rightarrow> error + configMap"
  GetValidatedGVK :: "groupVersionKind \<Rightarrow> groupVersionKind option"
  Namespaced :: "groupVersionKind \<Rightarrow> bool"
  registerTemplate :: "event list \<Rightarrow> namespacedName \<Rightarrow> deployable \<Rightarrow> string \<Rightarrow> error option"
  setInClusterPackageStatus :: "event list \<Rightarrow> string \<Rightarrow> error \<Rightarrow> error option"
  getHelmRelease :: "event list \<Rightarrow> namespacedName \<Rightarrow> error + helmRelease"
  validatePackages :: "event list \<Rightarrow> subscription \<Rightarrow> string list \<Rightarrow> error option"
  getSubscription :: "event list \<Rightarrow> namespacedName \<Rightarrow> error + subscription"

record env =
  lib :: libenv
  codec :: codecenv
  fs :: fsenv
  sync :: syncenv

subsection \<open>Reading a Go map\<close>

text \<open>\<^verbatim>\<open>m[k]\<close> on a \<^verbatim>\<open>map[string]string\<close>: the empty string when the key is absent.\<close>

definition mapIndex :: "(string \<times> string) list \<Rightarrow> string \<Rightarrow> string" where
  "mapIndex m k = (case map_of m k of None \<Rightarrow> [] | Some v \<Rightarrow> v)"

subsection \<open>checkVersion, checkTillerVersion, filterOnVersion\<close>

definition checkTillerVersion :: "libenv \<Rightarrow> subscriberItem \<Rightarrow> chartVersion \<Rightarrow> bool" where
  "checkTillerVersion L ghsi chartVersion =
    (case Subscription ghsi of
       None \<Rightarrow> True
     | Some sub \<Rightarrow>
        (case sub_packageFilter sub of
           None \<Rightarrow> True
         | Some pf \<Rightarrow>
            (case pf_annotations pf of
               None \<Rightarrow> True
             | Some annotations \<Rightarrow>
                (case map_of annotations ''tillerVersion'' of
                   None \<Rightarrow> True
                 | Some filterTillerVersion \<Rightarrow>
                    (let tillerVersion = cv_tillerVersion chartVersion in
                     if tillerVersion \<noteq> [] then
                       (case semverParseRange L tillerVersion of
                          Inl err \<Rightarrow> False
                        | Inr tillerVersionVersion \<Rightarrow>
                           (case semverParse L filterTillerVersion of
                              Inl err \<Rightarrow> False
                            | Inr parsedFilter \<Rightarrow> tillerVersionVersion parsedFilter))
                     else True)))))"

definition checkVersion :: "libenv \<Rightarrow> subscriberItem \<Rightarrow> chartVersion \<Rightarrow> bool" where
  "checkVersion L ghsi chartVersion =
    (case Subscription ghsi of
       None \<Rightarrow> True
     | Some sub \<Rightarrow>
        (case sub_packageFilter sub of
           None \<Rightarrow> True
         | Some pf \<Rightarrow>
            if pf_version pf \<noteq> [] then
              (case semverParse L (cv_version chartVersion) of
                 Inl err \<Rightarrow> False
               | Inr versionVersion \<Rightarrow>
                  (case semverParseRange L (pf_version pf) of
                     Inl err \<Rightarrow> False
                   | Inr filterVersion \<Rightarrow> filterVersion versionVersion))
            else True))"

text \<open>
  The body of the loop over the keys: read the entry (a missing key reads as the empty
  slice), keep the versions that pass both checks, store them or delete the key.
\<close>

definition filterOnVersion_key :: "libenv \<Rightarrow> subscriberItem \<Rightarrow> string \<Rightarrow> entries \<Rightarrow> entries" where
  "filterOnVersion_key L ghsi k es =
    (let chartVersions = (case map_of es k of None \<Rightarrow> [] | Some cvs \<Rightarrow> cvs);
         newChartVersions =
           filter (\<lambda>cv. checkTillerVersion L ghsi cv \<and> checkVersion L ghsi cv) chartVersions
     in if length newChartVersions > 0 then AList.update k newChartVersions es
        else AList.delete k es)"

definition filterOnVersion :: "libenv \<Rightarrow> subscriberItem \<Rightarrow> entries \<Rightarrow> entries" where
  "filterOnVersion L ghsi es = fold (filterOnVersion_key L ghsi) (map fst es) es"

subsection \<open>removeNoMatchingName, filterCharts\<close>

text \<open>
  Both mutate the index in place and return an error: the model returns the index as
  the call leaves it, and the error.
\<close>

definition removeNoMatchingName :: "subscriberItem \<Rightarrow> entries \<Rightarrow> entries \<times> error option" where
  "removeNoMatchingName ghsi es =
    (case Subscription ghsi of
       None \<Rightarrow> (es, None)
     | Some sub \<Rightarrow>
        if sub_package sub \<noteq> [] then
          (fold (\<lambda>k acc. if k \<noteq> sub_package sub then AList.delete k acc else acc)
             (map fst es) es, None)
        else
          (es, Some (Err (''subsciption.spec.name is missing for subscription: ''
                 @ sub_namespace sub @ ''/'' @ sub_name sub))))"

definition filterCharts :: "libenv \<Rightarrow> subscriberItem \<Rightarrow> entries \<Rightarrow> entries \<times> error option" where
  "filterCharts L ghsi es =
    (case removeNoMatchingName ghsi es of
       (es1, Some err) \<Rightarrow> (es1, Some err)
     | (es1, None) \<Rightarrow> (filterOnVersion L ghsi es1, None))"

subsection \<open>checkFilters\<close>

text \<open>The loop over the required annotations, with its \<^verbatim>\<open>break\<close> at the first mismatch.\<close>

fun annotationsMatched :: "(string \<times> string) list \<Rightarrow> (string \<times> string) list \<Rightarrow> bool" where
  "annotationsMatched [] rscanno = True"
| "annotationsMatched ((k, v) # rest) rscanno =
     (if mapIndex rscanno k \<noteq> v then False else annotationsMatched rest rscanno)"

definition checkFilters :: "libenv \<Rightarrow> subscriberItem \<Rightarrow> unstructured \<Rightarrow> string outcome" where
  "checkFilters L ghsi rsc =
    (case Subscription ghsi of
       None \<Rightarrow> Panic NilPointerDereference
     | Some sub \<Rightarrow>
        if sub_package sub \<noteq> [] \<and> sub_package sub \<noteq> u_name rsc then
          Normal (''Name does not match, skiping:'' @ sub_package sub @ ''|'' @ u_name rsc)
        else
          (case sub_packageFilter sub of
             None \<Rightarrow> Panic NilPointerDereference
           | Some pf \<Rightarrow>
              if \<not> LabelChecker L (pf_labelSelector pf) (u_labels rsc) then
                Normal (''Failed to pass label check on resource '' @ u_name rsc)
              else
                (case pf_annotations pf of
                   None \<Rightarrow> Normal []
                 | Some annotations \<Rightarrow>
                    if \<not> annotationsMatched annotations (u_annotations rsc) then
                      Normal (''Failed to pass annotation check to deployable '' @ u_name rsc)
                    else Normal [])))"

subsection \<open>getOverrides, override\<close>

fun getOverrides_loop :: "overrides list \<Rightarrow> string \<Rightarrow> dplOverrides" where
  "getOverrides_loop [] packageName = \<lparr>do_clusterName = [], do_clusterOverrides = []\<rparr>"
| "getOverrides_loop (ov # rest) packageName =
     (if ov_packageName ov = packageName then
        \<lparr>do_clusterName = packageName,
         do_clusterOverrides = fold (\<lambda>raw acc. acc @ [raw]) (ov_packageOverrides ov) []\<rparr>
      else getOverrides_loop rest packageName)"

definition getOverrides :: "subscription \<Rightarrow> string \<Rightarrow> dplOverrides" where
  "getOverrides sub packageName = getOverrides_loop (sub_packageOverrides sub) packageName"

text \<open>
  \<^verbatim>\<open>override\<close> rewrites the release in place; the model returns the rewritten release,
  or the error of the first step that fails. A failure to decode the template is only
  logged by the code.
\<close>

definition override :: "codecenv \<Rightarrow> subscription \<Rightarrow> helmRelease \<Rightarrow> error + helmRelease" where
  "override C sub helmRelease =
    (let overrides = getOverrides sub (hrs_chartName (hr_spec helmRelease)) in
     case yamlMarshalRelease C helmRelease of
       Inl err \<Rightarrow> Inl err
     | Inr data \<Rightarrow>
        (let template = yamlUnmarshalTemplate C data in
         case OverrideTemplate C template (do_clusterOverrides overrides) of
           Inl err \<Rightarrow> Inl err
         | Inr template1 \<Rightarrow>
            (case yamlMarshalTemplate C template1 of
               Inl err \<Rightarrow> Inl err
             | Inr data1 \<Rightarrow>
                (case yamlUnmarshalRelease C data1 helmRelease of
                   Inl err \<Rightarrow> Inl err
                 | Inr helmRelease1 \<Rightarrow> Inr helmRelease1))))"

subsection \<open>subscribeResource\<close>

text \<open>
  The last steps of \<^verbatim>\<open>subscribeResource\<close>: serialise the resource into the deployable
  and mark the deployable as local.
\<close>

definition finishDeployable ::
  "env \<Rightarrow> string \<Rightarrow> string \<Rightarrow> groupVersionKind \<Rightarrow> unstructured
    \<Rightarrow> error + deployable \<times> groupVersionKind" where
  "finishDeployable E dplName dplNamespace validgvk rsc =
    (case jsonMarshalResource (codec E) rsc of
       Inl err \<Rightarrow> Inl err
     | Inr raw \<Rightarrow>
        Inr (\<lparr>dpl_name = dplName, dpl_namespace = dplNamespace, dpl_template = raw,
              dpl_annotations = [(AnnotationLocal (lib E), ''true'')]\<rparr>, validgvk))"

definition subscribeResource ::
  "env \<Rightarrow> event list \<Rightarrow> subscriberItem \<Rightarrow> string \<Rightarrow> string list
    \<Rightarrow> (event list \<times> string list \<times> (error + deployable \<times> groupVersionKind)) outcome" where
  "subscribeResource E tr ghsi file pkgMap =
    (let rsc = yamlUnstructured (codec E) file in
     case Subscription ghsi of
       None \<Rightarrow> Panic NilPointerDereference
     | Some sub \<Rightarrow>
        (let dplName = (case Channel ghsi of
                          None \<Rightarrow> sub_name sub @ ''-'' @ u_kind rsc @ ''-'' @ u_name rsc
                        | Some ch \<Rightarrow> ch_name ch @ ''-'' @ u_kind rsc @ ''-'' @ u_name rsc);
             dplNamespace = (case Channel ghsi of
                               None \<Rightarrow> sub_namespace sub
                             | Some ch \<Rightarrow> ch_namespace ch);
             orggvk = objectGVK (codec E) rsc
         in case GetValidatedGVK (sync E) orggvk of
              None \<Rightarrow>
                (let gvkerr = Err (''Resource '' @ gvkString orggvk @ '' is not supported'')
                 in Normal (tr @ [SetInClusterPackageStatus dplName gvkerr],
                            List.insert dplName pkgMap, Inl gvkerr))
            | Some validgvk \<Rightarrow>
                (let rsc1 = (if Namespaced (sync E) validgvk
                             then rsc\<lparr>u_namespace := sub_namespace sub\<rparr> else rsc)
                 in case sub_packageFilter sub of
                      None \<Rightarrow>
                        Normal (tr, pkgMap, finishDeployable E dplName dplNamespace validgvk rsc1)
                    | Some pf \<Rightarrow>
                        (case checkFilters (lib E) ghsi rsc1 of
                           Panic p \<Rightarrow> Panic p
                         | Normal errMsg \<Rightarrow>
                            if errMsg \<noteq> [] then Normal (tr, pkgMap, Inl (Err errMsg))
                            else
                              (case OverrideResourceBySubscription (codec E) rsc1 (u_name rsc1) sub of
                                 Inl err \<Rightarrow>
                                   (let pkgMap1 = List.insert dplName pkgMap;
                                        errmsg = ''Failed override package '' @ dplName
                                                 @ '' with error: '' @ errorString err;
                                        errmsg1 =
                                          (case setInClusterPackageStatus (sync E) tr dplName err of
                                             None \<Rightarrow> errmsg
                                           | Some err1 \<Rightarrow>
                                               errmsg @ '' and failed to set in cluster package status with error: ''
                                               @ errorString err1)
                                    in Normal (tr @ [SetInClusterPackageStatus dplName err],
                                               pkgMap1, Inl (Err errmsg1)))
                               | Inr rsc2 \<Rightarrow>
                                   Normal (tr, pkgMap,
                                           finishDeployable E dplName dplNamespace validgvk rsc2))))))"

subsection \<open>subscribeResources\<close>

text \<open>
  \<^verbatim>\<open>filepath.Ext\<close>: the suffix from the last dot of the last path element; it scans
  from the last byte to the first. \<^verbatim>\<open>strings.EqualFold\<close> against the two ASCII
  extensions: equality after ASCII lower-casing.
\<close>

fun ext_scan :: "string \<Rightarrow> string \<Rightarrow> string" where
  "ext_scan acc [] = []"
| "ext_scan acc (c # cs) =
     (if c = CHR ''/'' then [] else if c = CHR ''.'' then c # acc else ext_scan (c # acc) cs)"

definition filepathExt :: "string \<Rightarrow> string" where
  "filepathExt path = ext_scan [] (rev path)"

definition toLowerASCII :: "char \<Rightarrow> char" where
  "toLowerASCII c =
    (let n = (of_char c :: nat) in if 65 \<le> n \<and> n \<le> 90 then char_of (n + 32) else c)"

definition EqualFold :: "string \<Rightarrow> string \<Rightarrow> bool" where
  "EqualFold s t = (map toLowerASCII s = map toLowerASCII t)"

text \<open>What a loop body tells its loop: go on, or return from the function.\<close>

datatype 'a flow = Continue 'a | Return 'a

text \<open>
  The body of the loop over the files of one directory, in two parts: \<open>applyResource\<close> is
  the branch taken for a Kubernetes resource (convert, register, record), \<open>fileBody\<close>
  the tests around it. The state is the trace and the package map.
\<close>

definition applyResource ::
  "env \<Rightarrow> subscriberItem \<Rightarrow> namespacedName \<Rightarrow> string \<Rightarrow> string
    \<Rightarrow> event list \<times> string list \<Rightarrow> (event list \<times> string list) flow outcome" where
  "applyResource E ghsi hostkey syncsource file st =
    (case st of (tr, pkgMap) \<Rightarrow>
      (case subscribeResource E tr ghsi file pkgMap of
         Panic p \<Rightarrow> Panic p
       | Normal (tr1, pkgMap1, Inl err) \<Rightarrow> Normal (Continue (tr1, pkgMap1))
       | Normal (tr1, pkgMap1, Inr (dpltosync, validgvk)) \<Rightarrow>
          (case registerTemplate (sync E) tr1 hostkey dpltosync syncsource of
             Some err \<Rightarrow>
               Normal (Return
                 (tr1 @ [RegisterTemplate hostkey dpltosync syncsource,
                         SetInClusterPackageStatus (dpl_name dpltosync) err],
                  List.insert (dpl_name dpltosync) pkgMap1))
           | None \<Rightarrow>
               (let dplkey = \<lparr>nn_namespace = dpl_namespace dpltosync,
                              nn_name = dpl_name dpltosync\<rparr>
                in Normal (Continue
                     (tr1 @ [RegisterTemplate hostkey dpltosync syncsource,
                             AddValidResource validgvk hostkey dplkey],
                      List.insert (nn_name dplkey) pkgMap1))))))"

definition fileBody ::
  "env \<Rightarrow> subscriberItem \<Rightarrow> namespacedName \<Rightarrow> string \<Rightarrow> string \<Rightarrow> fileInfo
    \<Rightarrow> event list \<times> string list \<Rightarrow> (event list \<times> string list) flow outcome" where
  "fileBody E ghsi hostkey syncsource dir f st =
    (if fi_regular f then
       if EqualFold (filepathExt (fi_name f)) ''.yml'' \<or> EqualFold (filepathExt (fi_name f)) ''.yaml''
       then
         (let file = readFile (fs E) (filepathJoin (lib E) [dir, fi_name f]);
              t = yamlKubeResource (codec E) file
          in if kr_apiVersion t = [] \<or> kr_kind t = [] then Normal (Continue st)
             else applyResource E ghsi hostkey syncsource file st)
       else Normal (Continue st)
     else Normal (Continue st))"

fun filesLoop ::
  "env \<Rightarrow> subscriberItem \<Rightarrow> namespacedName \<Rightarrow> string \<Rightarrow> string \<Rightarrow> fileInfo list
    \<Rightarrow> event list \<times> string list \<Rightarrow> (event list \<times> string list) flow outcome" where
  "filesLoop E ghsi hostkey syncsource dir [] st = Normal (Continue st)"
| "filesLoop E ghsi hostkey syncsource dir (f # files) st =
     (case fileBody E ghsi hostkey syncsource dir f st of
        Panic p \<Rightarrow> Panic p
      | Normal (Return st1) \<Rightarrow> Normal (Return st1)
      | Normal (Continue st1) \<Rightarrow> filesLoop E ghsi hostkey syncsource dir files st1)"

text \<open>The loop over the directories; a directory that cannot be listed has no files.\<close>

fun dirsLoop ::
  "env \<Rightarrow> subscriberItem \<Rightarrow> namespacedName \<Rightarrow> string \<Rightarrow> (string \<times> string) list
    \<Rightarrow> event list \<times> string list \<Rightarrow> (event list \<times> string list) flow outcome" where
  "dirsLoop E ghsi hostkey syncsource [] st = Normal (Continue st)"
| "dirsLoop E ghsi hostkey syncsource ((key, dir) # rscDirs) st =
     (case filesLoop E ghsi hostkey syncsource dir
             (case readDir (fs E) dir of Inl err \<Rightarrow> [] | Inr files \<Rightarrow> files) st of
        Panic p \<Rightarrow> Panic p
      | Normal (Return st1) \<Rightarrow> Normal (Return st1)
      | Normal (Continue st1) \<Rightarrow> dirsLoop E ghsi hostkey syncsource rscDirs st1)"

definition subscribeResources ::
  "env \<Rightarrow> event list \<Rightarrow> subscriberItem \<Rightarrow> (string \<times> string) list \<Rightarrow> event list outcome" where
  "subscribeResources E tr ghsi rscDirs =
    (case Subscription ghsi of
       None \<Rightarrow> Panic NilPointerDereference
     | Some sub \<Rightarrow>
        (let hostkey = \<lparr>nn_namespace = sub_namespace sub, nn_name = sub_name sub\<rparr>;
             syncsource = githubk8ssyncsource (lib E) @ nnString hostkey
         in case dirsLoop E ghsi hostkey syncsource rscDirs
                   (tr @ [CreateValiadtor syncsource], []) of
              Panic p \<Rightarrow> Panic p
            | Normal (Return (tr1, pkgMap)) \<Rightarrow> Normal tr1
            | Normal (Continue (tr1, pkgMap)) \<Rightarrow> Normal (tr1 @ [ApplyValiadtor syncsource])))"

subsection \<open>subscribeHelmCharts\<close>

text \<open>
  The release spec that both branches (create, update) build. The composite literal reads
  \<^verbatim>\<open>ghsi.Channel.Spec.PathName\<close> first, then \<^verbatim>\<open>chartVersions[0].URLs[0]\<close>: a nil channel,
  an empty version list or an empty URL list panics.
\<close>

definition newReleaseSpec ::
  "env \<Rightarrow> subscriberItem \<Rightarrow> string \<Rightarrow> string \<Rightarrow> chartVersion list \<Rightarrow> helmReleaseSpec outcome" where
  "newReleaseSpec E ghsi packageName releaseName chartVersions =
    (case Channel ghsi of
       None \<Rightarrow> Panic NilPointerDereference
     | Some ch \<Rightarrow>
        (case chartVersions of
           [] \<Rightarrow> Panic IndexOutOfRange
         | cv0 # cvs \<Rightarrow>
            (case cv_urls cv0 of
               [] \<Rightarrow> Panic IndexOutOfRange
             | url0 # urls \<Rightarrow>
                Normal \<lparr>hrs_sourceType = GitHubSourceType (lib E),
                        hrs_urls = [ch_pathName ch],
                        hrs_chartPath = url0,
                        hrs_configMapRef = ch_configMapRef ch,
                        hrs_secretRef = ch_secretRef ch,
                        hrs_chartName = packageName,
                        hrs_releaseName = releaseName,
                        hrs_version = cv_version cv0\<rparr>)))"

text \<open>
  What the body of the loop over the index tells the loop: go on with the next package,
  \<^verbatim>\<open>break\<close>, or \<^verbatim>\<open>return err\<close>. The loop state is the trace, the package map and the
  function's named result \<^verbatim>\<open>err\<close>. The body assigns the named result once, from the
  lookup of the release; from \<^verbatim>\<open>err := ghsi.override(helmRelease)\<close> on, \<^verbatim>\<open>err\<close> is a new
  variable of the loop body and the named result is not assigned again.
\<close>

datatype chartFlow =
    ChartContinue "event list \<times> string list \<times> error option"
  | ChartBreak "event list \<times> string list \<times> error option"
  | ChartReturn "event list" error

text \<open>How the loop ends: it falls through to the code after it, or the function returned.\<close>

datatype chartExit =
    ChartFallThrough "event list \<times> string list \<times> error option"
  | ChartReturned "event list" error

text \<open>
  The first half of the loop body: look the release up; build it when it is not found,
  overwrite its spec when it is found. The result is the release and the value the
  lookup left in the named result \<^verbatim>\<open>err\<close>; \<open>Inl\<close> is a lookup error other than
  not-found.
\<close>

definition lookupRelease ::
  "env \<Rightarrow> subscriberItem \<Rightarrow> subscription \<Rightarrow> string \<Rightarrow> chartVersion list \<Rightarrow> event list
    \<Rightarrow> (error + helmRelease \<times> error option) outcome" where
  "lookupRelease E ghsi sub packageName chartVersions tr =
    (let helmReleaseNewName = packageName @ ''-'' @ sub_name sub @ ''-'' @ sub_namespace sub
     in case getHelmRelease (sync E) tr
               \<lparr>nn_namespace = sub_namespace sub, nn_name = helmReleaseNewName\<rparr> of
          Inl err \<Rightarrow>
            if IsNotFound err then
              (case newReleaseSpec E ghsi packageName packageName chartVersions of
                 Panic p \<Rightarrow> Panic p
               | Normal spec \<Rightarrow>
                  Normal (Inr
                    (\<lparr>hr_apiVersion = ''app.ibm.com/v1alpha1'', hr_kind = ''HelmRelease'',
                      hr_name = helmReleaseNewName, hr_namespace = sub_namespace sub,
                      hr_ownerReferences =
                        [\<lparr>own_apiVersion = sub_apiVersion sub, own_kind = sub_kind sub,
                          own_name = sub_name sub, own_uid = sub_uid sub\<rparr>],
                      hr_spec = spec\<rparr>, Some err)))
            else Normal (Inl err)
        | Inr helmRelease \<Rightarrow>
            (case newReleaseSpec E ghsi packageName
                    (hrs_releaseName (hr_spec helmRelease)) chartVersions of
               Panic p \<Rightarrow> Panic p
             | Normal spec \<Rightarrow>
                Normal (Inr
                  (helmRelease\<lparr>hr_apiVersion := ''app.ibm.com/v1alpha1'',
                                hr_kind := ''HelmRelease'', hr_spec := spec\<rparr>, None))))"

text \<open>The second half, from \<^verbatim>\<open>ghsi.override(helmRelease)\<close> to the end of the body.\<close>

definition chartRegister ::
  "env \<Rightarrow> subscriberItem \<Rightarrow> subscription \<Rightarrow> namespacedName \<Rightarrow> string \<Rightarrow> string
    \<Rightarrow> chartVersion list \<Rightarrow> helmRelease \<Rightarrow> event list \<times> string list \<times> error option
    \<Rightarrow> chartFlow outcome" where
  "chartRegister E ghsi sub hostkey syncsource packageName chartVersions helmRelease st =
    (case st of (tr, pkgMap, err) \<Rightarrow>
      (case override (codec E) sub helmRelease of
         Inl err1 \<Rightarrow> Normal (ChartReturn tr err1)
       | Inr helmRelease1 \<Rightarrow>
          (case chartVersions of
             [] \<Rightarrow> Panic IndexOutOfRange
           | cv0 # cvs \<Rightarrow>
              (let dplName = (case Channel ghsi of
                                None \<Rightarrow> sub_name sub @ ''-'' @ packageName @ ''-'' @ cv_version cv0
                              | Some ch \<Rightarrow> ch_name ch @ ''-'' @ packageName @ ''-'' @ cv_version cv0);
                   dplNamespace = (case Channel ghsi of
                                     None \<Rightarrow> sub_namespace sub
                                   | Some ch \<Rightarrow> ch_namespace ch)
               in case jsonMarshalRelease (codec E) helmRelease1 of
                    Inl err1 \<Rightarrow> Normal (ChartContinue (tr, pkgMap, err))
                  | Inr raw \<Rightarrow>
                     (let dpl = \<lparr>dpl_name = dplName, dpl_namespace = dplNamespace,
                                 dpl_template = raw,
                                 dpl_annotations = [(AnnotationLocal (lib E), ''true'')]\<rparr>
                      in case registerTemplate (sync E) tr hostkey dpl syncsource of
                           Some err1 \<Rightarrow>
                             Normal (ChartContinue
                               (tr @ [RegisterTemplate hostkey dpl syncsource,
                                      SetInClusterPackageStatus (dpl_name dpl) err1],
                                List.insert (dpl_name dpl) pkgMap, err))
                         | None \<Rightarrow>
                             Normal (ChartContinue
                               (tr @ [RegisterTemplate hostkey dpl syncsource],
                                List.insert dplName pkgMap, err)))))))"

definition chartBody ::
  "env \<Rightarrow> subscriberItem \<Rightarrow> subscription \<Rightarrow> namespacedName \<Rightarrow> string
    \<Rightarrow> string \<times> chartVersion list \<Rightarrow> event list \<times> string list \<times> error option
    \<Rightarrow> chartFlow outcome" where
  "chartBody E ghsi sub hostkey syncsource entry st =
    (case entry of (packageName, chartVersions) \<Rightarrow>
     case st of (tr, pkgMap, err0) \<Rightarrow>
      (let tr1 = tr @ [GetHelmRelease
                         \<lparr>nn_namespace = sub_namespace sub,
                          nn_name = packageName @ ''-'' @ sub_name sub @ ''-'' @ sub_namespace sub\<rparr>]
       in case lookupRelease E ghsi sub packageName chartVersions tr of
            Panic p \<Rightarrow> Panic p
          | Normal (Inl err) \<Rightarrow> Normal (ChartBreak (tr1, pkgMap, Some err))
          | Normal (Inr (helmRelease, err)) \<Rightarrow>
              chartRegister E ghsi sub hostkey syncsource packageName chartVersions
                helmRelease (tr1, pkgMap, err)))"

fun chartsLoop ::
  "env \<Rightarrow> subscriberItem \<Rightarrow> subscription \<Rightarrow> namespacedName \<Rightarrow> string \<Rightarrow> entries
    \<Rightarrow> event list \<times> string list \<times> error option \<Rightarrow> chartExit outcome" where
  "chartsLoop E ghsi sub hostkey syncsource [] st = Normal (ChartFallThrough st)"
| "chartsLoop E ghsi sub hostkey syncsource (entry # rest) st =
     (case chartBody E ghsi sub hostkey syncsource entry st of
        Panic p \<Rightarrow> Panic p
      | Normal (ChartReturn tr err) \<Rightarrow> Normal (ChartReturned tr err)
      | Normal (ChartBreak st1) \<Rightarrow> Normal (ChartFallThrough st1)
      | Normal (ChartContinue st1) \<Rightarrow> chartsLoop E ghsi sub hostkey syncsource rest st1)"

text \<open>
  The result is the trace, the item (its subscription is read again when the first status
  validation fails) and the returned error.
\<close>

definition subscribeHelmCharts ::
  "env \<Rightarrow> event list \<Rightarrow> subscriberItem \<Rightarrow> entries
    \<Rightarrow> (event list \<times> subscriberItem \<times> error option) outcome" where
  "subscribeHelmCharts E tr ghsi indexFile =
    (case Subscription ghsi of
       None \<Rightarrow> Panic NilPointerDereference
     | Some sub \<Rightarrow>
        (let hostkey = \<lparr>nn_namespace = sub_namespace sub, nn_name = sub_name sub\<rparr>;
             syncsource = githubhelmsyncsource (lib E) @ nnString hostkey
         in case chartsLoop E ghsi sub hostkey syncsource indexFile (tr, [], None) of
              Panic p \<Rightarrow> Panic p
            | Normal (ChartReturned tr1 err) \<Rightarrow> Normal (tr1, ghsi, Some err)
            | Normal (ChartFallThrough (tr1, pkgMap, err)) \<Rightarrow>
               (let tr2 = tr1 @ [ValidatePackagesInSubscriptionStatus sub pkgMap]
                in if validatePackages (sync E) tr1 sub pkgMap \<noteq> None then
                     (let tr3 = tr2 @ [GetSubscription hostkey];
                          sub1 = (case getSubscription (sync E) tr2 hostkey of
                                    Inl err1 \<Rightarrow> sub
                                  | Inr fetched \<Rightarrow> fetched)
                      in Normal (tr3 @ [ValidatePackagesInSubscriptionStatus sub1 pkgMap],
                                 ghsi\<lparr>Subscription := Some sub1\<rparr>,
                                 validatePackages (sync E) tr3 sub1 pkgMap))
                   else Normal (tr2, ghsi, err))))"

subsection \<open>cloneGitRepo\<close>

definition UserID :: string where
  "UserID = ''user''"

definition Password :: string where
  "Password = ''password''"

text \<open>The credentials of the clone: none without a secret reference.\<close>

definition cloneAuth ::
  "env \<Rightarrow> event list \<Rightarrow> channel \<Rightarrow> event list \<times> (error + (string \<times> string) option)" where
  "cloneAuth E tr ch =
    (case ch_secretRef ch of
       None \<Rightarrow> (tr, Inr None)
     | Some sref \<Rightarrow>
        (let secns = (if or_namespace sref = [] then ch_namespace ch else or_namespace sref);
             key = \<lparr>nn_namespace = secns, nn_name = or_name sref\<rparr>;
             tr1 = tr @ [GetSecret key]
         in case getSecret (sync E) tr key of
              Inl err \<Rightarrow> (tr1, Inl err)
            | Inr secretData \<Rightarrow>
               (case yamlUnmarshalString (codec E) (mapIndex secretData UserID) of
                  Inl err \<Rightarrow> (tr1, Inl err)
                | Inr username \<Rightarrow>
                   (case yamlUnmarshalString (codec E) (mapIndex secretData Password) of
                      Inl err \<Rightarrow> (tr1, Inl err)
                    | Inr password \<Rightarrow> (tr1, Inr (Some (username, password)))))))"

definition cloneGitRepo ::
  "env \<Rightarrow> event list \<Rightarrow> subscriberItem \<Rightarrow> (event list \<times> (error + string)) outcome" where
  "cloneGitRepo E tr ghsi =
    (case Channel ghsi of
       None \<Rightarrow> Panic NilPointerDereference
     | Some ch \<Rightarrow>
        (case cloneAuth E tr ch of
           (tr1, Inl err) \<Rightarrow> Normal (tr1, Inl err)
         | (tr1, Inr auth) \<Rightarrow>
            (let repoRoot = filepathJoin (lib E) [tempDir (fs E), ch_namespace ch, ch_name ch]
             in case (if statNotExist (fs E) tr1 repoRoot
                      then (tr1 @ [MkdirAll repoRoot], mkdirAll (fs E) tr1 repoRoot)
                      else (tr1 @ [RemoveAll repoRoot], removeAll (fs E) tr1 repoRoot)) of
                  (tr2, Some err) \<Rightarrow> Normal (tr2, Inl err)
                | (tr2, None) \<Rightarrow>
                   (let tr3 = tr2 @ [PlainClone repoRoot (ch_pathName ch)]
                    in case plainClone (fs E) tr2 repoRoot (ch_pathName ch) auth of
                         Some err \<Rightarrow> Normal (tr3, Inl err)
                       | None \<Rightarrow>
                          (case repoHead (fs E) repoRoot of
                             Inl err \<Rightarrow> Normal (tr3, Inl err)
                           | Inr ref \<Rightarrow>
                              (case commitObject (fs E) repoRoot ref of
                                 Inl err \<Rightarrow> Normal (tr3, Inl err)
                               | Inr cid \<Rightarrow> Normal (tr3, Inr cid)))))))"

subsection \<open>sortClonedGitRepo\<close>

record sortState =
  chartDirs :: "(string \<times> string) list"
  resourceDirs :: "(string \<times> string) list"
  currentChartDir :: string

text \<open>
  The callback handed to \<^verbatim>\<open>filepath.Walk\<close>. \<^verbatim>\<open>strings.HasPrefix(path, p)\<close> is
  \<open>prefix p path\<close>.
\<close>

definition walkFn :: "fsenv \<Rightarrow> string \<Rightarrow> visit \<Rightarrow> sortState \<Rightarrow> error + sortState" where
  "walkFn F repoRoot v st =
    (case v_err v of
       Some err \<Rightarrow> Inl err
     | None \<Rightarrow>
        if v_isDir v then
          if statOk F (v_path v @ ''/Chart.yaml'') then
            if \<not> prefix (currentChartDir st) (v_path v) then
              Inr (st\<lparr>chartDirs := AList.update (v_path v @ ''/'') (v_path v @ ''/'') (chartDirs st),
                      currentChartDir := v_path v @ ''/''\<rparr>)
            else Inr st
          else if \<not> prefix (currentChartDir st) (v_path v)
                  \<and> \<not> prefix (repoRoot @ ''/.git'') (v_path v) then
            Inr (st\<lparr>resourceDirs :=
                      AList.update (v_path v @ ''/'') (v_path v @ ''/'') (resourceDirs st)\<rparr>)
          else Inr st
        else Inr st)"

text \<open>\<^verbatim>\<open>filepath.Walk\<close> stops at the first error the callback returns and returns it.\<close>

fun walkLoop :: "fsenv \<Rightarrow> string \<Rightarrow> visit list \<Rightarrow> sortState \<Rightarrow> error + sortState" where
  "walkLoop F repoRoot [] st = Inr st"
| "walkLoop F repoRoot (v # vs) st =
     (case walkFn F repoRoot v st of
        Inl err \<Rightarrow> Inl err
      | Inr st1 \<Rightarrow> walkLoop F repoRoot vs st1)"

text \<open>
  The classification of the cloned tree: the walk from \<open>resourcePath\<close>, started with
  both maps empty and \<^verbatim>\<open>currentChartDir := "NONE"\<close>.
\<close>

definition classify :: "fsenv \<Rightarrow> string \<Rightarrow> string \<Rightarrow> error + sortState" where
  "classify F repoRoot resourcePath =
    walkLoop F repoRoot (walk F resourcePath)
      \<lparr>chartDirs = [], resourceDirs = [], currentChartDir = ''NONE''\<rparr>"

text \<open>
  The loop that builds the index from the chart directories. \<^verbatim>\<open>strings.Split(...)[0]\<close>
  and \<^verbatim>\<open>strings.SplitAfter(...)[1]\<close> panic when the slice is too short.
\<close>

fun buildIndex :: "env \<Rightarrow> string \<Rightarrow> (string \<times> string) list \<Rightarrow> entries \<Rightarrow> (error + entries) outcome" where
  "buildIndex E repoRoot [] indexFile = Normal (Inr indexFile)"
| "buildIndex E repoRoot ((chartDir, val) # rest) indexFile =
     (let chartFolderName = filepathBase (lib E) chartDir in
      case stringsSplit (lib E) chartDir chartFolderName of
        [] \<Rightarrow> Panic IndexOutOfRange
      | chartParentDir # parts \<Rightarrow>
         (case stringsSplitAfter (lib E) chartParentDir (repoRoot @ ''/'') of
            [] \<Rightarrow> Panic IndexOutOfRange
          | [part0] \<Rightarrow> Panic IndexOutOfRange
          | part0 # chartBaseDir # parts1 \<Rightarrow>
             (case LoadChartfile (fs E) (chartDir @ ''Chart.yaml'') of
                Inl err \<Rightarrow> Normal (Inl err)
              | Inr chartMetadata \<Rightarrow>
                 buildIndex E repoRoot rest
                   (indexAdd (fs E) indexFile chartMetadata chartFolderName chartBaseDir
                      ''generated-by-multicloud-operators-subscription''))))"

definition sortClonedGitRepo ::
  "env \<Rightarrow> event list \<Rightarrow> subscriberItem
    \<Rightarrow> (event list \<times> subscriberItem \<times> (error + entries \<times> (string \<times> string) list)) outcome" where
  "sortClonedGitRepo E tr ghsi =
    (case Subscription ghsi of
       None \<Rightarrow> Panic NilPointerDereference
     | Some sub \<Rightarrow>
        (case sub_packageFilter sub of
           None \<Rightarrow> Panic NilPointerDereference
         | Some pf \<Rightarrow>
            (let tr1 = (case pf_filterRef pf of
                          None \<Rightarrow> tr
                        | Some refName \<Rightarrow>
                            tr @ [GetConfigMap \<lparr>nn_namespace = sub_namespace sub, nn_name = refName\<rparr>]);
                 ghsi1 = (case pf_filterRef pf of
                            None \<Rightarrow> ghsi
                          | Some refName \<Rightarrow>
                              ghsi\<lparr>SubscriptionConfigMap :=
                                Some (case getConfigMap (sync E) tr
                                             \<lparr>nn_namespace = sub_namespace sub, nn_name = refName\<rparr> of
                                        Inl err \<Rightarrow> []
                                      | Inr cm \<Rightarrow> cm)\<rparr>)
             in case Channel ghsi1 of
                  None \<Rightarrow> Panic NilPointerDereference
                | Some ch \<Rightarrow>
                   (let repoRoot = filepathJoin (lib E) [tempDir (fs E), ch_namespace ch, ch_name ch];
                        resourcePath = (case SubscriptionConfigMap ghsi1 of
                                          None \<Rightarrow> repoRoot
                                        | Some cm \<Rightarrow> filepathJoin (lib E) [repoRoot, mapIndex cm ''path''])
                    in case classify (fs E) repoRoot resourcePath of
                         Inl err \<Rightarrow> Normal (tr1, ghsi1, Inl err)
                       | Inr st \<Rightarrow>
                          (case buildIndex E repoRoot (chartDirs st) [] of
                             Panic p \<Rightarrow> Panic p
                           | Normal (Inl err) \<Rightarrow> Normal (tr1, ghsi1, Inl err)
                           | Normal (Inr built) \<Rightarrow>
                              (let indexFile = SortEntries (fs E) built
                               in Normal (tr1, ghsi1,
                                    Inr (fst (filterCharts (lib E) ghsi1 indexFile),
                                         resourceDirs st))))))))"

subsection \<open>doSubscription\<close>

text \<open>One reconciliation cycle: the trace and the item as the cycle leaves them.\<close>

definition doSubscription ::
  "env \<Rightarrow> event list \<Rightarrow> subscriberItem \<Rightarrow> (event list \<times> subscriberItem) outcome" where
  "doSubscription E tr ghsi =
    (case cloneGitRepo E tr ghsi of
       Panic p \<Rightarrow> Panic p
     | Normal (tr1, Inl err) \<Rightarrow> Normal (tr1, ghsi)
     | Normal (tr1, Inr cid) \<Rightarrow>
        if cid \<noteq> commitID ghsi then
          (case sortClonedGitRepo E tr1 ghsi of
             Panic p \<Rightarrow> Panic p
           | Normal (tr2, ghsi2, Inl err) \<Rightarrow> Normal (tr2, ghsi2)
           | Normal (tr2, ghsi2, Inr (index, rscDirs)) \<Rightarrow>
              (case subscribeResources E tr2 ghsi2 rscDirs of
                 Panic p \<Rightarrow> Panic p
               | Normal tr3 \<Rightarrow>
                  (case subscribeHelmCharts E tr3 ghsi2 index of
                     Panic p \<Rightarrow> Panic p
                   | Normal (tr4, ghsi4, Some err) \<Rightarrow> Normal (tr4, ghsi4)
                   | Normal (tr4, ghsi4, None) \<Rightarrow> Normal (tr4, ghsi4\<lparr>commitID := cid\<rparr>))))
        else Normal (tr1, ghsi))"

section \<open>A concrete world\<close>

text \<open>
  One subscription, one channel and one cloned repository, used to run the functions
  above on concrete inputs. The repository \<^verbatim>\<open>/tmp/ns/ch\<close> holds the manifest
  \<^verbatim>\<open>cfg.yaml\<close> (a ConfigMap named cfg), the manifest \<^verbatim>\<open>half.yaml\<close> (an
  \<^verbatim>\<open>apiVersion\<close> and no \<^verbatim>\<open>kind\<close>) and the charts \<^verbatim>\<open>demo\<close> (1.0.0) and
  \<^verbatim>\<open>other\<close> (2.0.0).
\<close>

fun semverLE :: "semver \<Rightarrow> semver \<Rightarrow> bool" where
  "semverLE (a, b, c) (x, y, z) = (a < x \<or> (a = x \<and> (b < y \<or> (b = y \<and> c \<le> z))))"

definition stripSlash :: "string \<Rightarrow> string" where
  "stripSlash p = (if p \<noteq> [] \<and> last p = CHR ''/'' then butlast p else p)"

fun joinSlash :: "string list \<Rightarrow> string" where
  "joinSlash [] = []"
| "joinSlash [p] = p"
| "joinSlash (p # q # ps) = p @ ''/'' @ joinSlash (q # ps)"

definition lib0 :: libenv where
  "lib0 =
    \<lparr>githubk8ssyncsource = ''subgbk8s-'',
     githubhelmsyncsource = ''subgbhelm-'',
     AnnotationLocal = ''app.ibm.com/is-local-deployable'',
     GitHubSourceType = ''github'',
     semverParse = (\<lambda>s. if s = ''1.0.0'' then Inr (1, 0, 0)
                         else if s = ''1.2.5'' then Inr (1, 2, 5)
                         else if s = ''2.0.0'' then Inr (2, 0, 0)
                         else if s = ''2.14.0'' then Inr (2, 14, 0)
                         else Inl (Err ''Invalid Semantic Version'')),
     semverParseRange = (\<lambda>s. if s = ''>=1.2.0 <2.0.0''
                                then Inr (\<lambda>v. semverLE (1, 2, 0) v \<and> \<not> semverLE (2, 0, 0) v)
                              else if s = ''>=2.12.0'' then Inr (\<lambda>v. semverLE (2, 12, 0) v)
                              else Inl (Err ''Could not parse Range'')),
     LabelChecker = (\<lambda>sel labels. case sel of
                        None \<Rightarrow> True
                      | Some ml \<Rightarrow> list_all (\<lambda>kv. map_of labels (fst kv) = Some (snd kv)) ml),
     filepathJoin = (\<lambda>parts. joinSlash (map stripSlash (filter (\<lambda>p. p \<noteq> []) parts))),
     filepathBase = (\<lambda>p. if p = ''/tmp/ns/ch/demo/'' then ''demo''
                          else if p = ''/tmp/ns/ch/other/'' then ''other'' else ''.''),
     stringsSplit = (\<lambda>s sep. if s = ''/tmp/ns/ch/demo/'' \<and> sep = ''demo'' then [''/tmp/ns/ch/'', ''/'']
                              else if s = ''/tmp/ns/ch/other/'' \<and> sep = ''other'' then [''/tmp/ns/ch/'', ''/'']
                              else [s]),
     stringsSplitAfter = (\<lambda>s sep. if s = ''/tmp/ns/ch/'' \<and> sep = ''/tmp/ns/ch/''
                                   then [''/tmp/ns/ch/'', []] else [s])\<rparr>"

definition cfgFile :: string where
  "cfgFile = ''{apiVersion: v1, kind: ConfigMap, metadata: {name: cfg}}''"

definition halfFile :: string where
  "halfFile = ''{apiVersion: v1, metadata: {name: half}}''"

definition codec0 :: codecenv where
  "codec0 =
    \<lparr>yamlUnmarshalString = (\<lambda>s. Inr s),
     yamlKubeResource = (\<lambda>file. if file = cfgFile then \<lparr>kr_apiVersion = ''v1'', kr_kind = ''ConfigMap''\<rparr>
                                 else if file = halfFile then \<lparr>kr_apiVersion = ''v1'', kr_kind = []\<rparr>
                                 else \<lparr>kr_apiVersion = [], kr_kind = []\<rparr>),
     yamlUnstructured = (\<lambda>file. if file = cfgFile
                                 then \<lparr>u_apiVersion = ''v1'', u_kind = ''ConfigMap'', u_name = ''cfg'',
                                       u_namespace = [], u_labels = [], u_annotations = [], u_rest = []\<rparr>
                                 else if file = halfFile
                                 then \<lparr>u_apiVersion = ''v1'', u_kind = [], u_name = ''half'',
                                       u_namespace = [], u_labels = [], u_annotations = [], u_rest = []\<rparr>
                                 else \<lparr>u_apiVersion = [], u_kind = [], u_name = [],
                                       u_namespace = [], u_labels = [], u_annotations = [], u_rest = []\<rparr>),
     objectGVK = (\<lambda>u. \<lparr>gvk_group = [], gvk_version = u_apiVersion u, gvk_kind = u_kind u\<rparr>),
     jsonMarshalResource = (\<lambda>u. Inr (''json:'' @ u_kind u @ ''/'' @ u_namespace u @ ''/'' @ u_name u)),
     OverrideResourceBySubscription = (\<lambda>u n sub. Inr u),
     yamlMarshalRelease = (\<lambda>hr. Inr (hr_name hr)),
     yamlUnmarshalTemplate = (\<lambda>data. \<lparr>u_apiVersion = ''app.ibm.com/v1alpha1'', u_kind = ''HelmRelease'',
                                       u_name = data, u_namespace = [], u_labels = [],
                                       u_annotations = [], u_rest = []\<rparr>),
     OverrideTemplate = (\<lambda>t ovs. Inr t),
     yamlMarshalTemplate = (\<lambda>t. Inr (u_name t)),
     yamlUnmarshalRelease = (\<lambda>data hr. Inr hr),
     jsonMarshalRelease = (\<lambda>hr. Inr (''json:'' @ hr_name hr))\<rparr>"

definition fs0 :: fsenv where
  "fs0 =
    \<lparr>tempDir = ''/tmp'',
     statNotExist = (\<lambda>tr p. False),
     mkdirAll = (\<lambda>tr p. None),
     removeAll = (\<lambda>tr p. None),
     plainClone = (\<lambda>tr p url auth. None),
     repoHead = (\<lambda>p. Inr ''refs/heads/master''),
     commitObject = (\<lambda>p ref. Inr ''c1''),
     walk = (\<lambda>p. [\<lparr>v_path = ''/tmp/ns/ch'', v_isDir = True, v_err = None\<rparr>,
                    \<lparr>v_path = ''/tmp/ns/ch/.git'', v_isDir = True, v_err = None\<rparr>,
                    \<lparr>v_path = ''/tmp/ns/ch/cfg.yaml'', v_isDir = False, v_err = None\<rparr>,
                    \<lparr>v_path = ''/tmp/ns/ch/demo'', v_isDir = True, v_err = None\<rparr>,
                    \<lparr>v_path = ''/tmp/ns/ch/demo/Chart.yaml'', v_isDir = False, v_err = None\<rparr>,
                    \<lparr>v_path = ''/tmp/ns/ch/half.yaml'', v_isDir = False, v_err = None\<rparr>,
                    \<lparr>v_path = ''/tmp/ns/ch/other'', v_isDir = True, v_err = None\<rparr>,
                    \<lparr>v_path = ''/tmp/ns/ch/other/Chart.yaml'', v_isDir = False, v_err = None\<rparr>]),
     statOk = (\<lambda>p. p = ''/tmp/ns/ch/demo/Chart.yaml'' \<or> p = ''/tmp/ns/ch/other/Chart.yaml''),
     readDir = (\<lambda>d. if d = ''/tmp/ns/ch/''
                     then Inr [\<lparr>fi_name = ''.git'', fi_regular = False\<rparr>,
                               \<lparr>fi_name = ''cfg.yaml'', fi_regular = True\<rparr>,
                               \<lparr>fi_name = ''demo'', fi_regular = False\<rparr>,
                               \<lparr>fi_name = ''half.yaml'', fi_regular = True\<rparr>,
                               \<lparr>fi_name = ''other'', fi_regular = False\<rparr>]
                     else Inl (Err ''no such directory'')),
     readFile = (\<lambda>p. if p = ''/tmp/ns/ch/cfg.yaml'' then cfgFile
                      else if p = ''/tmp/ns/ch/half.yaml'' then halfFile else []),
     LoadChartfile = (\<lambda>p. if p = ''/tmp/ns/ch/demo/Chart.yaml''
                           then Inr \<lparr>md_name = ''demo'', md_version = ''1.0.0'', md_tillerVersion = []\<rparr>
                           else if p = ''/tmp/ns/ch/other/Chart.yaml''
                           then Inr \<lparr>md_name = ''other'', md_version = ''2.0.0'', md_tillerVersion = []\<rparr>
                           else Inl (Err ''no Chart.yaml'')),
     indexAdd = (\<lambda>idx md filename baseURL digest.
                   AList.update (md_name md)
                     ((case map_of idx (md_name md) of None \<Rightarrow> [] | Some ee \<Rightarrow> ee)
                      @ [\<lparr>cv_name = md_name md, cv_version = md_version md,
                          cv_tillerVersion = md_tillerVersion md,
                          cv_urls = [baseURL @ filename], cv_digest = digest\<rparr>]) idx),
     SortEntries = (\<lambda>idx. idx)\<rparr>"

definition release0 :: "namespacedName \<Rightarrow> helmRelease" where
  "release0 key =
    \<lparr>hr_apiVersion = [], hr_kind = [], hr_name = nn_name key, hr_namespace = nn_namespace key,
     hr_ownerReferences = [],
     hr_spec = \<lparr>hrs_sourceType = ''github'', hrs_urls = [], hrs_chartPath = [],
                hrs_configMapRef = None, hrs_secretRef = None, hrs_chartName = [],
                hrs_releaseName = ''rel'', hrs_version = []\<rparr>\<rparr>"

definition pf0 :: packageFilter where
  "pf0 = \<lparr>pf_labelSelector = None, pf_annotations = None, pf_version = [], pf_filterRef = None\<rparr>"

definition sub0 :: subscription where
  "sub0 =
    \<lparr>sub_name = ''sub'', sub_namespace = ''subns'', sub_apiVersion = ''app.ibm.com/v1alpha1'',
     sub_kind = ''Subscription'', sub_uid = ''uid-1'', sub_package = [],
     sub_packageFilter = Some pf0, sub_packageOverrides = []\<rparr>"

definition ch0 :: channel where
  "ch0 =
    \<lparr>ch_name = ''ch'', ch_namespace = ''ns'', ch_pathName = ''https://github.com/org/repo.git'',
     ch_secretRef = None, ch_configMapRef = None\<rparr>"

definition item0 :: subscriberItem where
  "item0 = \<lparr>Subscription = Some sub0, Channel = Some ch0, SubscriptionConfigMap = None, commitID = []\<rparr>"

definition sync0 :: syncenv where
  "sync0 =
    \<lparr>getSecret = (\<lambda>tr key. Inl (NotFoundErr ''secret not found'')),
     getConfigMap = (\<lambda>tr key. Inl (NotFoundErr ''configmap not found'')),
     GetValidatedGVK = (\<lambda>g. Some g),
     Namespaced = (\<lambda>g. True),
     registerTemplate = (\<lambda>tr hostkey dpl src. None),
     setInClusterPackageStatus = (\<lambda>tr name err. None),
     getHelmRelease = (\<lambda>tr key. Inr (release0 key)),
     validatePackages = (\<lambda>tr sub pkgMap. None),
     getSubscription = (\<lambda>tr key. Inr sub0)\<rparr>"

definition env0 :: env where
  "env0 = \<lparr>lib = lib0, codec = codec0, fs = fs0, sync = sync0\<rparr>"

text \<open>The same world, with a synchronizer that refuses the ConfigMap's deployable.\<close>

definition envRefuse :: env where
  "envRefuse =
    env0\<lparr>sync := sync0\<lparr>registerTemplate :=
      (\<lambda>tr hostkey dpl src. if dpl_name dpl = ''ch-ConfigMap-cfg''
                             then Some (Err ''registration refused'') else None)\<rparr>\<rparr>"

text \<open>The same world, with a walk that fails on the repository root.\<close>

definition envWalkFails :: env where
  "envWalkFails =
    env0\<lparr>fs := fs0\<lparr>walk :=
      (\<lambda>p. [\<lparr>v_path = ''/tmp/ns/ch'', v_isDir = False, v_err = Some (Err ''lstat failed'')\<rparr>])\<rparr>\<rparr>"

text \<open>The same world, with an override engine that fails on the release of \<^verbatim>\<open>demo\<close>.\<close>

definition envOverrideFails :: env where
  "envOverrideFails =
    env0\<lparr>codec := codec0\<lparr>OverrideTemplate :=
      (\<lambda>t ovs. if u_name t = ''demo-sub-subns'' then Inl (Err ''override failed'') else Inr t)\<rparr>\<rparr>"

section \<open>Predicates and fixtures of the statements\<close>

text \<open>
  A version satisfies a range: both parse and the range accepts the version. A parse
  failure on either side is a failure to satisfy.
\<close>

definition satisfiesRange :: "libenv \<Rightarrow> string \<Rightarrow> string \<Rightarrow> bool" where
  "satisfiesRange L version rng =
    (case semverParse L version of
       Inl err \<Rightarrow> False
     | Inr v \<Rightarrow> (case semverParseRange L rng of Inl err \<Rightarrow> False | Inr r \<Rightarrow> r v))"

text \<open>The version constraint and the tiller constraint a subscription declares, if any.\<close>

definition declaredVersion :: "subscription \<Rightarrow> string option" where
  "declaredVersion sub =
    (case sub_packageFilter sub of
       None \<Rightarrow> None
     | Some pf \<Rightarrow> if pf_version pf = [] then None else Some (pf_version pf))"

definition declaredTiller :: "subscription \<Rightarrow> string option" where
  "declaredTiller sub =
    (case sub_packageFilter sub of
       None \<Rightarrow> None
     | Some pf \<Rightarrow>
        (case pf_annotations pf of None \<Rightarrow> None | Some a \<Rightarrow> map_of a ''tillerVersion''))"

text \<open>
  The filter as the specification words it: a record under a tiller constraint is kept
  only if it declares a tiller version, and that version lies in the declared range.
\<close>

definition spec_keeps :: "libenv \<Rightarrow> subscription \<Rightarrow> chartVersion \<Rightarrow> bool" where
  "spec_keeps L sub cv =
    ((case declaredVersion sub of
        None \<Rightarrow> True
      | Some rng \<Rightarrow> satisfiesRange L (cv_version cv) rng)
     \<and> (case declaredTiller sub of
          None \<Rightarrow> True
        | Some rng \<Rightarrow> cv_tillerVersion cv \<noteq> [] \<and> satisfiesRange L (cv_tillerVersion cv) rng))"

text \<open>
  The filter as the code has it: a record that declares no tiller version passes the
  tiller constraint; one that declares a tiller version declares a range, and the
  subscription's tiller version, a literal, has to lie in it.
\<close>

definition code_keeps :: "libenv \<Rightarrow> subscription \<Rightarrow> chartVersion \<Rightarrow> bool" where
  "code_keeps L sub cv =
    ((case declaredVersion sub of
        None \<Rightarrow> True
      | Some rng \<Rightarrow> satisfiesRange L (cv_version cv) rng)
     \<and> (case declaredTiller sub of
          None \<Rightarrow> True
        | Some literal \<Rightarrow> cv_tillerVersion cv = [] \<or> satisfiesRange L literal (cv_tillerVersion cv)))"

text \<open>Fixtures for the filters: a subscription that declares tiller version 2.14.0.\<close>

definition subTiller :: subscription where
  "subTiller = sub0\<lparr>sub_packageFilter := Some (pf0\<lparr>pf_annotations := Some [(''tillerVersion'', ''2.14.0'')]\<rparr>)\<rparr>"

definition itemTiller :: subscriberItem where
  "itemTiller = item0\<lparr>Subscription := Some subTiller\<rparr>"

definition demoVersion :: "string \<Rightarrow> string \<Rightarrow> chartVersion" where
  "demoVersion version tiller =
    \<lparr>cv_name = ''demo'', cv_version = version, cv_tillerVersion = tiller,
     cv_urls = [''demo''], cv_digest = []\<rparr>"

text \<open>A subscription that declares the version range of the specification's example.\<close>

definition subRange :: subscription where
  "subRange = sub0\<lparr>sub_packageFilter := Some (pf0\<lparr>pf_version := ''>=1.2.0 <2.0.0''\<rparr>)\<rparr>"

definition itemRange :: subscriberItem where
  "itemRange = item0\<lparr>Subscription := Some subRange\<rparr>"

text \<open>A subscription that declares the package name \<^verbatim>\<open>demo\<close>.\<close>

definition subDemo :: subscription where
  "subDemo = sub0\<lparr>sub_package := ''demo''\<rparr>"

definition itemDemo :: subscriberItem where
  "itemDemo = item0\<lparr>Subscription := Some subDemo\<rparr>"

definition indexDemoOther :: entries where
  "indexDemoOther = [(''demo'', [demoVersion ''1.0.0'' []]),
                     (''other'', [\<lparr>cv_name = ''other'', cv_version = ''2.0.0'', cv_tillerVersion = [],
                                   cv_urls = [''other''], cv_digest = []\<rparr>])]"

text \<open>What the version filter leaves of one entry of the index, for a keep predicate.\<close>

definition keptOf :: "(chartVersion \<Rightarrow> bool) \<Rightarrow> chartVersion list option \<Rightarrow> chartVersion list option" where
  "keptOf P x =
    (case x of
       None \<Rightarrow> None
     | Some cvs \<Rightarrow> if filter P cvs = [] then None else Some (filter P cvs))"


text \<open>
  Fixtures for \<open>checkFilters\<close>: a subscription that selects the label \<^verbatim>\<open>app=web\<close> and
  requires the annotation \<^verbatim>\<open>tier=gold\<close>, and a resource with the label and with
  \<^verbatim>\<open>tier=silver\<close>.
\<close>

definition pfGold :: packageFilter where
  "pfGold = pf0\<lparr>pf_labelSelector := Some [(''app'', ''web'')],
                pf_annotations := Some [(''tier'', ''gold'')]\<rparr>"

definition subGold :: subscription where
  "subGold = sub0\<lparr>sub_packageFilter := Some pfGold\<rparr>"

definition itemGold :: subscriberItem where
  "itemGold = item0\<lparr>Subscription := Some subGold\<rparr>"

definition rscSilver :: unstructured where
  "rscSilver =
    \<lparr>u_apiVersion = ''v1'', u_kind = ''ConfigMap'', u_name = ''cfg'', u_namespace = ''subns'',
     u_labels = [(''app'', ''web'')], u_annotations = [(''tier'', ''silver'')], u_rest = []\<rparr>"

text \<open>A subscription with no package filter at all.\<close>

definition itemNoFilter :: subscriberItem where
  "itemNoFilter = item0\<lparr>Subscription := Some (sub0\<lparr>sub_packageFilter := None\<rparr>)\<rparr>"

text \<open>
  The tree of the classifier example, as \<^verbatim>\<open>filepath.Walk\<close> visits it (lexical order,
  a directory before what it holds), and a file system in which \<^verbatim>\<open>/root/a\<close> and
  \<^verbatim>\<open>/root/a/b\<close> hold a \<^verbatim>\<open>Chart.yaml\<close>.
\<close>

definition rootVisits :: "visit list" where
  "rootVisits =
    [\<lparr>v_path = ''/root'', v_isDir = True, v_err = None\<rparr>,
     \<lparr>v_path = ''/root/.git'', v_isDir = True, v_err = None\<rparr>,
     \<lparr>v_path = ''/root/a'', v_isDir = True, v_err = None\<rparr>,
     \<lparr>v_path = ''/root/a/Chart.yaml'', v_isDir = False, v_err = None\<rparr>,
     \<lparr>v_path = ''/root/a/b'', v_isDir = True, v_err = None\<rparr>,
     \<lparr>v_path = ''/root/a/b/Chart.yaml'', v_isDir = False, v_err = None\<rparr>]"

definition fsRoot :: fsenv where
  "fsRoot = fs0\<lparr>walk := (\<lambda>p. rootVisits),
                statOk := (\<lambda>p. p = ''/root/a/Chart.yaml'' \<or> p = ''/root/a/b/Chart.yaml'')\<rparr>"

text \<open>The host key and the two registration sources of a subscription.\<close>

definition hostKey :: "subscription \<Rightarrow> namespacedName" where
  "hostKey sub = \<lparr>nn_namespace = sub_namespace sub, nn_name = sub_name sub\<rparr>"

definition k8sSource :: "env \<Rightarrow> subscription \<Rightarrow> string" where
  "k8sSource E sub = githubk8ssyncsource (lib E) @ nnString (hostKey sub)"

definition helmSource :: "env \<Rightarrow> subscription \<Rightarrow> string" where
  "helmSource E sub = githubhelmsyncsource (lib E) @ nnString (hostKey sub)"

text \<open>The key under which the chart pass looks the release of a package up.\<close>

definition releaseKey :: "subscription \<Rightarrow> string \<Rightarrow> namespacedName" where
  "releaseKey sub packageName =
    \<lparr>nn_namespace = sub_namespace sub,
     nn_name = packageName @ ''-'' @ sub_name sub @ ''-'' @ sub_namespace sub\<rparr>"

text \<open>The deployable the chart pass wraps a serialised release in.\<close>

definition chartDeployable ::
  "env \<Rightarrow> subscriberItem \<Rightarrow> subscription \<Rightarrow> string \<Rightarrow> chartVersion \<Rightarrow> string \<Rightarrow> deployable" where
  "chartDeployable E ghsi sub packageName cv0 raw =
    \<lparr>dpl_name = (case Channel ghsi of
                   None \<Rightarrow> sub_name sub @ ''-'' @ packageName @ ''-'' @ cv_version cv0
                 | Some ch \<Rightarrow> ch_name ch @ ''-'' @ packageName @ ''-'' @ cv_version cv0),
     dpl_namespace = (case Channel ghsi of None \<Rightarrow> sub_namespace sub | Some ch \<Rightarrow> ch_namespace ch),
     dpl_template = raw,
     dpl_annotations = [(AnnotationLocal (lib E), ''true'')]\<rparr>"

text \<open>
  Two more variants of the world: a synchronizer that refuses the deployable of the chart
  \<^verbatim>\<open>demo\<close>, and a JSON encoder that fails on the release of \<^verbatim>\<open>demo\<close>.
\<close>

definition envRefuseChart :: env where
  "envRefuseChart =
    env0\<lparr>sync := sync0\<lparr>registerTemplate :=
      (\<lambda>tr hostkey dpl src. if dpl_name dpl = ''ch-demo-1.0.0''
                             then Some (Err ''registration refused'') else None)\<rparr>\<rparr>"

definition envMarshalFails :: env where
  "envMarshalFails =
    env0\<lparr>codec := codec0\<lparr>jsonMarshalRelease :=
      (\<lambda>hr. if hr_name hr = ''demo-sub-subns'' then Inl (Err ''marshal failed'')
             else Inr (''json:'' @ hr_name hr))\<rparr>\<rparr>"

text \<open>
  What the cycles in this world produce: the deployables, the index, the resource
  directories, and the events of the fetch, of the resource pass (completed, and cut short
  by the refused registration) and of the chart pass.
\<close>

definition dplCfg :: deployable where
  "dplCfg = \<lparr>dpl_name = ''ch-ConfigMap-cfg'', dpl_namespace = ''ns'',
             dpl_template = ''json:ConfigMap/subns/cfg'',
             dpl_annotations = [(''app.ibm.com/is-local-deployable'', ''true'')]\<rparr>"

definition dplDemo :: deployable where
  "dplDemo = \<lparr>dpl_name = ''ch-demo-1.0.0'', dpl_namespace = ''ns'',
              dpl_template = ''json:demo-sub-subns'',
              dpl_annotations = [(''app.ibm.com/is-local-deployable'', ''true'')]\<rparr>"

definition dplOther :: deployable where
  "dplOther = \<lparr>dpl_name = ''ch-other-2.0.0'', dpl_namespace = ''ns'',
               dpl_template = ''json:other-sub-subns'',
               dpl_annotations = [(''app.ibm.com/is-local-deployable'', ''true'')]\<rparr>"

definition gvkCfg :: groupVersionKind where
  "gvkCfg = \<lparr>gvk_group = [], gvk_version = ''v1'', gvk_kind = ''ConfigMap''\<rparr>"

definition hk0 :: namespacedName where
  "hk0 = \<lparr>nn_namespace = ''subns'', nn_name = ''sub''\<rparr>"

definition index0 :: entries where
  "index0 =
    [(''demo'', [\<lparr>cv_name = ''demo'', cv_version = ''1.0.0'', cv_tillerVersion = [],
                  cv_urls = [''demo''],
                  cv_digest = ''generated-by-multicloud-operators-subscription''\<rparr>]),
     (''other'', [\<lparr>cv_name = ''other'', cv_version = ''2.0.0'', cv_tillerVersion = [],
                   cv_urls = [''other''],
                   cv_digest = ''generated-by-multicloud-operators-subscription''\<rparr>])]"

definition dirs0 :: "(string \<times> string) list" where
  "dirs0 = [(''/tmp/ns/ch/'', ''/tmp/ns/ch/'')]"

definition trFetch :: "event list" where
  "trFetch = [RemoveAll ''/tmp/ns/ch'', PlainClone ''/tmp/ns/ch'' ''https://github.com/org/repo.git'']"

definition trResources :: "event list" where
  "trResources =
    [CreateValiadtor ''subgbk8s-subns/sub'',
     RegisterTemplate hk0 dplCfg ''subgbk8s-subns/sub'',
     AddValidResource gvkCfg hk0 \<lparr>nn_namespace = ''ns'', nn_name = ''ch-ConfigMap-cfg''\<rparr>,
     ApplyValiadtor ''subgbk8s-subns/sub'']"

definition trResourcesRefused :: "event list" where
  "trResourcesRefused =
    [CreateValiadtor ''subgbk8s-subns/sub'',
     RegisterTemplate hk0 dplCfg ''subgbk8s-subns/sub'',
     SetInClusterPackageStatus ''ch-ConfigMap-cfg'' (Err ''registration refused'')]"

definition trCharts :: "event list" where
  "trCharts =
    [GetHelmRelease \<lparr>nn_namespace = ''subns'', nn_name = ''demo-sub-subns''\<rparr>,
     RegisterTemplate hk0 dplDemo ''subgbhelm-subns/sub'',
     GetHelmRelease \<lparr>nn_namespace = ''subns'', nn_name = ''other-sub-subns''\<rparr>,
     RegisterTemplate hk0 dplOther ''subgbhelm-subns/sub'',
     ValidatePackagesInSubscriptionStatus sub0 [''ch-other-2.0.0'', ''ch-demo-1.0.0'']]"

text \<open>The same world, with no release yet in the cluster: every lookup answers not found.\<close>

definition envNoRelease :: env where
  "envNoRelease =
    env0\<lparr>sync := sync0\<lparr>getHelmRelease := (\<lambda>tr key. Inl (NotFoundErr ''release not found''))\<rparr>\<rparr>"

text \<open>The release of \<^verbatim>\<open>demo\<close> as the chart pass rebuilds it from the one it finds.\<close>

definition releaseDemo :: helmRelease where
  "releaseDemo =
    \<lparr>hr_apiVersion = ''app.ibm.com/v1alpha1'', hr_kind = ''HelmRelease'',
     hr_name = ''demo-sub-subns'', hr_namespace = ''subns'', hr_ownerReferences = [],
     hr_spec = \<lparr>hrs_sourceType = ''github'', hrs_urls = [''https://github.com/org/repo.git''],
                hrs_chartPath = ''demo'', hrs_configMapRef = None, hrs_secretRef = None,
                hrs_chartName = ''demo'', hrs_releaseName = ''rel'', hrs_version = ''1.0.0''\<rparr>\<rparr>"

text \<open>
  The repository root of a channel and the path the classification walks from, as
  \<open>sortClonedGitRepo\<close> computes them (the path from the item as the function leaves it).
\<close>

definition repoRootOf :: "env \<Rightarrow> channel \<Rightarrow> string" where
  "repoRootOf E ch = filepathJoin (lib E) [tempDir (fs E), ch_namespace ch, ch_name ch]"

definition resourcePathOf :: "env \<Rightarrow> channel \<Rightarrow> subscriberItem \<Rightarrow> string" where
  "resourcePathOf E ch ghsi =
    (case SubscriptionConfigMap ghsi of
       None \<Rightarrow> repoRootOf E ch
     | Some cm \<Rightarrow> filepathJoin (lib E) [repoRootOf E ch, mapIndex cm ''path''])"

section \<open>The version and tiller filter\<close>

lemma checks_eq_code_keeps:
  assumes "Subscription ghsi = Some sub"
  shows "(checkTillerVersion L ghsi cv \<and> checkVersion L ghsi cv) = code_keeps L sub cv"
  using assms
  by (auto simp: checkTillerVersion_def checkVersion_def code_keeps_def declaredVersion_def
      declaredTiller_def satisfiesRange_def Let_def split: option.splits sum.splits)

lemma keptOf_idem: "keptOf P (keptOf P x) = keptOf P x"
  by (simp add: keptOf_def split: option.splits)

lemma map_of_filterOnVersion_key:
  "map_of (filterOnVersion_key L ghsi k' es) k =
     (if k = k'
      then keptOf (\<lambda>cv. checkTillerVersion L ghsi cv \<and> checkVersion L ghsi cv) (map_of es k)
      else map_of es k)"
  by (simp add: filterOnVersion_key_def keptOf_def Let_def update_conv' delete_conv'
      split: option.splits)

lemma map_of_fold_filterOnVersion_key:
  "map_of (fold (filterOnVersion_key L ghsi) ks es) k =
     (if k \<in> set ks
      then keptOf (\<lambda>cv. checkTillerVersion L ghsi cv \<and> checkVersion L ghsi cv) (map_of es k)
      else map_of es k)"
proof (induction ks arbitrary: es)
  case Nil
  then show ?case by simp
next
  case (Cons a ks)
  show ?case
    by (simp add: Cons.IH map_of_filterOnVersion_key keptOf_idem)
qed

lemma map_of_filterOnVersion:
  "map_of (filterOnVersion L ghsi es) k =
     keptOf (\<lambda>cv. checkTillerVersion L ghsi cv \<and> checkVersion L ghsi cv) (map_of es k)"
proof (cases "k \<in> set (map fst es)")
  case True
  then show ?thesis by (simp add: filterOnVersion_def map_of_fold_filterOnVersion_key)
next
  case False
  then have "map_of es k = None" by (simp add: map_of_eq_None_iff)
  with False show ?thesis
    by (simp add: filterOnVersion_def map_of_fold_filterOnVersion_key keptOf_def)
qed

text \<open>
  C4, as stated, fails on the code. The subscription declares tiller version 2.14.0.
  A record that declares no tiller version is kept by \<open>filterOnVersion\<close>, where the
  statement excludes it; and a record that declares the tiller range \<^verbatim>\<open>>=2.12.0\<close> is
  kept because 2.14.0 lies in it, where the statement reads the record's value as a
  version and the subscription's as a range (and so excludes the record, whose value is
  no version).
\<close>

theorem filterOnVersion_tiller_counterexample:
  "filterOnVersion lib0 itemTiller [(''demo'', [demoVersion ''1.0.0'' []])]
     = [(''demo'', [demoVersion ''1.0.0'' []])]
   \<and> \<not> spec_keeps lib0 subTiller (demoVersion ''1.0.0'' [])
   \<and> filterOnVersion lib0 itemTiller [(''demo'', [demoVersion ''1.0.0'' ''>=2.12.0''])]
     = [(''demo'', [demoVersion ''1.0.0'' ''>=2.12.0''])]
   \<and> \<not> spec_keeps lib0 subTiller (demoVersion ''1.0.0'' ''>=2.12.0'')"
  by (simp add: filterOnVersion_def filterOnVersion_key_def checkTillerVersion_def
      checkVersion_def lib0_def satisfiesRange_def itemTiller_def subTiller_def item0_def
      sub0_def pf0_def demoVersion_def spec_keeps_def declaredTiller_def declaredVersion_def)

text \<open>
  C4, amended. For every package \<open>k\<close> of the index, \<open>filterOnVersion\<close> leaves exactly the
  records that \<open>code_keeps\<close> accepts, in their order, and removes the package when none
  is left. \<open>code_keeps\<close>: (no version range is declared, or the record's version parses,
  the declared range parses and the version lies in the range) and (no tiller version is
  declared, or the record declares no tiller version, or the record's tiller range
  parses, the declared tiller version parses and lies in that range). A parse failure
  excludes the record only.
\<close>

theorem filterOnVersion_keeps:
  assumes "Subscription ghsi = Some sub"
  shows "map_of (filterOnVersion L ghsi es) k =
           (case map_of es k of
              None \<Rightarrow> None
            | Some cvs \<Rightarrow> if filter (code_keeps L sub) cvs = [] then None
                          else Some (filter (code_keeps L sub) cvs))
         \<and> (k \<in> fst ` set (filterOnVersion L ghsi es) \<longleftrightarrow>
              (\<exists>cvs. map_of es k = Some cvs \<and> filter (code_keeps L sub) cvs \<noteq> []))"
proof -
  have eq: "(\<lambda>cv. checkTillerVersion L ghsi cv \<and> checkVersion L ghsi cv) = code_keeps L sub"
    using checks_eq_code_keeps [OF assms] by blast
  have m: "map_of (filterOnVersion L ghsi es) k = keptOf (code_keeps L sub) (map_of es k)"
    by (simp add: map_of_filterOnVersion eq)
  have "k \<in> fst ` set (filterOnVersion L ghsi es) \<longleftrightarrow> map_of (filterOnVersion L ghsi es) k \<noteq> None"
    by (simp add: map_of_eq_None_iff)
  also have "\<dots> \<longleftrightarrow> (\<exists>cvs. map_of es k = Some cvs \<and> filter (code_keeps L sub) cvs \<noteq> [])"
    by (simp add: m keptOf_def split: option.splits)
  finally show ?thesis
    using m by (simp add: keptOf_def)
qed

theorem filterOnVersion_keeps_witness:
  "Subscription itemRange = Some subRange
   \<and> map_of (filterOnVersion lib0 itemRange
        [(''demo'', [demoVersion ''2.0.0'' [], demoVersion ''1.2.5'' [], demoVersion ''1.0.0'' []])])
        ''demo''
     = Some [demoVersion ''1.2.5'' []]"
  using filterOnVersion_keeps [of itemRange subRange lib0
      "[(''demo'', [demoVersion ''2.0.0'' [], demoVersion ''1.2.5'' [], demoVersion ''1.0.0'' []])]"
      "''demo''"]
  by (simp add: itemRange_def subRange_def item0_def sub0_def pf0_def code_keeps_def
      declaredVersion_def declaredTiller_def satisfiesRange_def lib0_def demoVersion_def)

section \<open>The name filter\<close>

lemma fold_delete_others:
  "fold (\<lambda>k acc. if k \<noteq> p then AList.delete k acc else acc) ks es =
     filter (\<lambda>kv. fst kv \<in> set ks \<longrightarrow> fst kv = p) es"
proof (induction ks arbitrary: es)
  case Nil
  then show ?case by simp
next
  case (Cons a ks)
  show ?case
  proof (cases "a = p")
    case True
    have "filter (\<lambda>kv. fst kv \<in> set ks \<longrightarrow> fst kv = p) es =
          filter (\<lambda>kv. fst kv \<in> set (a # ks) \<longrightarrow> fst kv = p) es"
      using True by (intro filter_cong) auto
    with True show ?thesis by (simp add: Cons.IH)
  next
    case False
    have "filter (\<lambda>kv. fst kv \<in> set ks \<longrightarrow> fst kv = p) (AList.delete a es) =
          filter (\<lambda>kv. fst kv \<in> set (a # ks) \<longrightarrow> fst kv = p) es"
      using False by (induction es) (auto simp: AList.delete_eq)
    with False show ?thesis by (simp add: Cons.IH)
  qed
qed

lemma removeNoMatchingName_named:
  assumes "Subscription ghsi = Some sub" and "sub_package sub \<noteq> []"
  shows "removeNoMatchingName ghsi es = (filter (\<lambda>kv. fst kv = sub_package sub) es, None)"
proof -
  have "filter (\<lambda>kv. fst kv \<in> set (map fst es) \<longrightarrow> fst kv = sub_package sub) es =
        filter (\<lambda>kv. fst kv = sub_package sub) es"
    by (rule filter_cong) auto
  with assms show ?thesis
    by (simp add: removeNoMatchingName_def fold_delete_others)
qed

lemma removeNoMatchingName_unnamed:
  assumes "Subscription ghsi = Some sub" and "sub_package sub = []"
  shows "removeNoMatchingName ghsi es =
           (es, Some (Err (''subsciption.spec.name is missing for subscription: ''
                  @ sub_namespace sub @ ''/'' @ sub_name sub)))"
  using assms by (simp add: removeNoMatchingName_def)

lemma sortClonedGitRepo_fields:
  assumes "sortClonedGitRepo E tr ghsi = Normal (tr1, ghsi1, r)"
  shows "Subscription ghsi1 = Subscription ghsi \<and> Channel ghsi1 = Channel ghsi
         \<and> commitID ghsi1 = commitID ghsi"
  using assms
  by (auto simp: sortClonedGitRepo_def Let_def split: option.splits sum.splits outcome.splits)

lemma sortClonedGitRepo_index:
  assumes S: "Subscription ghsi = Some sub"
    and s: "sortClonedGitRepo E tr ghsi = Normal (tr1, ghsi1, Inr (index, rscDirs))"
  shows "\<exists>ch st built.
           Channel ghsi = Some ch
           \<and> classify (fs E) (repoRootOf E ch) (resourcePathOf E ch ghsi1) = Inr st
           \<and> buildIndex E (repoRootOf E ch) (chartDirs st) [] = Normal (Inr built)
           \<and> Subscription ghsi1 = Some sub
           \<and> index = fst (filterCharts (lib E) ghsi1 (SortEntries (fs E) built))
           \<and> rscDirs = resourceDirs st"
  using S s
  by (auto simp: sortClonedGitRepo_def repoRootOf_def resourcePathOf_def Let_def
      split: option.splits sum.splits outcome.splits)

text \<open>
  C7. With a package name declared, \<open>removeNoMatchingName\<close> leaves exactly the entries
  whose key is that name and reports no error. With no name declared it reports an error
  and leaves the index as it was, and \<open>filterCharts\<close> stops there with the same result.
  The caller: whenever \<open>sortClonedGitRepo\<close> returns an index for a subscription with no
  name, that index is the whole sorted index built from the chart directories that the
  classification of this repository found, unfiltered; for a subscription with a name it
  is that index with every entry under another key removed, then filtered on version.
\<close>

theorem name_filter:
  assumes "Subscription ghsi = Some sub"
  shows "(sub_package sub \<noteq> [] \<longrightarrow>
            removeNoMatchingName ghsi es = (filter (\<lambda>kv. fst kv = sub_package sub) es, None))
       \<and> (sub_package sub = [] \<longrightarrow>
            fst (removeNoMatchingName ghsi es) = es \<and> snd (removeNoMatchingName ghsi es) \<noteq> None
            \<and> filterCharts L ghsi es = removeNoMatchingName ghsi es)
       \<and> (sub_package sub = []
            \<and> sortClonedGitRepo E tr ghsi = Normal (tr1, ghsi1, Inr (index, rscDirs)) \<longrightarrow>
            (\<exists>ch st built.
                Channel ghsi = Some ch
                \<and> classify (fs E) (repoRootOf E ch) (resourcePathOf E ch ghsi1) = Inr st
                \<and> buildIndex E (repoRootOf E ch) (chartDirs st) [] = Normal (Inr built)
                \<and> index = SortEntries (fs E) built
                \<and> rscDirs = resourceDirs st))
       \<and> (sub_package sub \<noteq> []
            \<and> sortClonedGitRepo E tr ghsi = Normal (tr1, ghsi1, Inr (index, rscDirs)) \<longrightarrow>
            (\<exists>ch st built.
                Channel ghsi = Some ch
                \<and> classify (fs E) (repoRootOf E ch) (resourcePathOf E ch ghsi1) = Inr st
                \<and> buildIndex E (repoRootOf E ch) (chartDirs st) [] = Normal (Inr built)
                \<and> index = filterOnVersion (lib E) ghsi1
                    (filter (\<lambda>kv. fst kv = sub_package sub) (SortEntries (fs E) built))
                \<and> rscDirs = resourceDirs st))"
proof (intro conjI impI)
  assume "sub_package sub \<noteq> []"
  then show "removeNoMatchingName ghsi es = (filter (\<lambda>kv. fst kv = sub_package sub) es, None)"
    using assms by (rule removeNoMatchingName_named [rotated])
next
  assume e: "sub_package sub = []"
  show "fst (removeNoMatchingName ghsi es) = es"
    by (simp add: removeNoMatchingName_unnamed [OF assms e])
  show "snd (removeNoMatchingName ghsi es) \<noteq> None"
    by (simp add: removeNoMatchingName_unnamed [OF assms e])
  show "filterCharts L ghsi es = removeNoMatchingName ghsi es"
    by (simp add: filterCharts_def removeNoMatchingName_unnamed [OF assms e])
next
  assume h: "sub_package sub = []
      \<and> sortClonedGitRepo E tr ghsi = Normal (tr1, ghsi1, Inr (index, rscDirs))"
  then have e: "sub_package sub = []"
    and s: "sortClonedGitRepo E tr ghsi = Normal (tr1, ghsi1, Inr (index, rscDirs))"
    by simp_all
  from sortClonedGitRepo_index [OF assms s] obtain ch st built where
    c: "Channel ghsi = Some ch"
      "classify (fs E) (repoRootOf E ch) (resourcePathOf E ch ghsi1) = Inr st"
      "buildIndex E (repoRootOf E ch) (chartDirs st) [] = Normal (Inr built)"
      "rscDirs = resourceDirs st"
    and S1: "Subscription ghsi1 = Some sub"
    and i: "index = fst (filterCharts (lib E) ghsi1 (SortEntries (fs E) built))"
    by blast
  from i have "index = SortEntries (fs E) built"
    by (simp add: filterCharts_def removeNoMatchingName_unnamed [OF S1 e])
  with c show "\<exists>ch st built.
                Channel ghsi = Some ch
                \<and> classify (fs E) (repoRootOf E ch) (resourcePathOf E ch ghsi1) = Inr st
                \<and> buildIndex E (repoRootOf E ch) (chartDirs st) [] = Normal (Inr built)
                \<and> index = SortEntries (fs E) built
                \<and> rscDirs = resourceDirs st"
    by blast
next
  assume h: "sub_package sub \<noteq> []
      \<and> sortClonedGitRepo E tr ghsi = Normal (tr1, ghsi1, Inr (index, rscDirs))"
  then have e: "sub_package sub \<noteq> []"
    and s: "sortClonedGitRepo E tr ghsi = Normal (tr1, ghsi1, Inr (index, rscDirs))"
    by simp_all
  from sortClonedGitRepo_index [OF assms s] obtain ch st built where
    c: "Channel ghsi = Some ch"
      "classify (fs E) (repoRootOf E ch) (resourcePathOf E ch ghsi1) = Inr st"
      "buildIndex E (repoRootOf E ch) (chartDirs st) [] = Normal (Inr built)"
      "rscDirs = resourceDirs st"
    and S1: "Subscription ghsi1 = Some sub"
    and i: "index = fst (filterCharts (lib E) ghsi1 (SortEntries (fs E) built))"
    by blast
  from i have "index = filterOnVersion (lib E) ghsi1
                    (filter (\<lambda>kv. fst kv = sub_package sub) (SortEntries (fs E) built))"
    by (simp add: filterCharts_def removeNoMatchingName_named [OF S1 e])
  with c show "\<exists>ch st built.
                Channel ghsi = Some ch
                \<and> classify (fs E) (repoRootOf E ch) (resourcePathOf E ch ghsi1) = Inr st
                \<and> buildIndex E (repoRootOf E ch) (chartDirs st) [] = Normal (Inr built)
                \<and> index = filterOnVersion (lib E) ghsi1
                    (filter (\<lambda>kv. fst kv = sub_package sub) (SortEntries (fs E) built))
                \<and> rscDirs = resourceDirs st"
    by blast
qed

text \<open>
  In the concrete world the classification finds the chart directories of \<^verbatim>\<open>demo\<close> and
  \<^verbatim>\<open>other\<close>, and the index built from them holds both packages. The caller returns
  that whole index for the subscription with no name, and the entry of \<^verbatim>\<open>demo\<close> alone
  for the subscription that declares \<^verbatim>\<open>demo\<close>.
\<close>

theorem name_filter_witness:
  "removeNoMatchingName itemDemo indexDemoOther = ([(''demo'', [demoVersion ''1.0.0'' []])], None)
   \<and> filterCharts lib0 item0 indexDemoOther =
       (indexDemoOther, Some (Err ''subsciption.spec.name is missing for subscription: subns/sub''))
   \<and> classify fs0 ''/tmp/ns/ch'' ''/tmp/ns/ch'' =
       Inr \<lparr>chartDirs = [(''/tmp/ns/ch/demo/'', ''/tmp/ns/ch/demo/''),
                         (''/tmp/ns/ch/other/'', ''/tmp/ns/ch/other/'')],
            resourceDirs = dirs0, currentChartDir = ''/tmp/ns/ch/other/''\<rparr>
   \<and> buildIndex env0 ''/tmp/ns/ch''
        [(''/tmp/ns/ch/demo/'', ''/tmp/ns/ch/demo/''),
         (''/tmp/ns/ch/other/'', ''/tmp/ns/ch/other/'')] [] = Normal (Inr index0)
   \<and> sortClonedGitRepo env0 [] item0 = Normal ([], item0, Inr (index0, dirs0))
   \<and> sortClonedGitRepo env0 [] itemDemo = Normal ([], itemDemo, Inr ([hd index0], dirs0))"
proof -
  have S0: "Subscription item0 = Some sub0"
    by (simp add: item0_def)
  have SD: "Subscription itemDemo = Some subDemo"
    by (simp add: itemDemo_def)
  have n0: "sub_package sub0 = []"
    by (simp add: sub0_def)
  have nD: "sub_package subDemo \<noteq> []"
    by (simp add: subDemo_def sub0_def)
  have evals: "classify fs0 ''/tmp/ns/ch'' ''/tmp/ns/ch'' =
       Inr \<lparr>chartDirs = [(''/tmp/ns/ch/demo/'', ''/tmp/ns/ch/demo/''),
                         (''/tmp/ns/ch/other/'', ''/tmp/ns/ch/other/'')],
            resourceDirs = dirs0, currentChartDir = ''/tmp/ns/ch/other/''\<rparr>
     \<and> buildIndex env0 ''/tmp/ns/ch''
        [(''/tmp/ns/ch/demo/'', ''/tmp/ns/ch/demo/''),
         (''/tmp/ns/ch/other/'', ''/tmp/ns/ch/other/'')] [] = Normal (Inr index0)"
    by (simp add: classify_def walkFn_def env0_def fs0_def lib0_def dirs0_def index0_def Let_def)
  have s0: "sub_package sub0 = []
      \<and> sortClonedGitRepo env0 [] item0 = Normal ([], item0, Inr (index0, dirs0))"
    by (simp add: sortClonedGitRepo_def classify_def walkFn_def filterCharts_def
        removeNoMatchingName_def env0_def fs0_def lib0_def item0_def sub0_def pf0_def ch0_def
        stripSlash_def dirs0_def index0_def Let_def)
  have sD: "sub_package subDemo \<noteq> []
      \<and> sortClonedGitRepo env0 [] itemDemo = Normal ([], itemDemo, Inr ([hd index0], dirs0))"
    by (simp add: sortClonedGitRepo_def classify_def walkFn_def filterCharts_def
        removeNoMatchingName_def filterOnVersion_def filterOnVersion_key_def
        checkTillerVersion_def checkVersion_def env0_def fs0_def lib0_def itemDemo_def
        subDemo_def item0_def sub0_def pf0_def ch0_def stripSlash_def dirs0_def index0_def
        Let_def)
  note r1 = name_filter [OF SD, THEN conjunct1, THEN mp, OF nD, of indexDemoOther]
  note r2 = name_filter [OF S0, THEN conjunct2, THEN conjunct1, THEN mp, OF n0,
      of indexDemoOther lib0]
  note r3 = name_filter [OF S0, THEN conjunct2, THEN conjunct2, THEN conjunct1, THEN mp, OF s0]
  note r4 = name_filter [OF SD, THEN conjunct2, THEN conjunct2, THEN conjunct2, THEN mp, OF sD]
  from r1 r2 r3 r4 evals s0 sD show ?thesis
    by (simp add: itemDemo_def subDemo_def item0_def sub0_def indexDemoOther_def
        removeNoMatchingName_def)
qed

section \<open>The resource filters\<close>

lemma annotationsMatched_iff:
  "annotationsMatched annos rscanno \<longleftrightarrow> (\<forall>kv \<in> set annos. mapIndex rscanno (fst kv) = snd kv)"
  by (induction annos rscanno rule: annotationsMatched.induct) auto

lemma mapIndex_update:
  "mapIndex (AList.update k v m) k' = (if k' = k then v else mapIndex m k')"
  by (simp add: mapIndex_def update_conv')

text \<open>
  C9. With a package filter configured, \<open>checkFilters\<close> accepts a resource (returns the
  empty message) iff the name matches (or none is declared), \<open>LabelChecker\<close> accepts its
  labels and every required annotation has the required value. The checks run in that
  order and the first that fails decides the message. In particular a resource that
  passes the name and label checks and mismatches exactly the required annotation \<open>k\<close>
  is rejected, and is accepted once that annotation is set to the required value.
\<close>

theorem checkFilters_conjunction:
  assumes "Subscription ghsi = Some sub" and "sub_packageFilter sub = Some pf"
  shows "(checkFilters L ghsi rsc = Normal [] \<longleftrightarrow>
            (sub_package sub = [] \<or> sub_package sub = u_name rsc)
            \<and> LabelChecker L (pf_labelSelector pf) (u_labels rsc)
            \<and> (case pf_annotations pf of
                  None \<Rightarrow> True
                | Some annos \<Rightarrow> \<forall>kv \<in> set annos. mapIndex (u_annotations rsc) (fst kv) = snd kv))
       \<and> (sub_package sub \<noteq> [] \<and> sub_package sub \<noteq> u_name rsc \<longrightarrow>
            checkFilters L ghsi rsc =
              Normal (''Name does not match, skiping:'' @ sub_package sub @ ''|'' @ u_name rsc))
       \<and> ((sub_package sub = [] \<or> sub_package sub = u_name rsc)
            \<and> \<not> LabelChecker L (pf_labelSelector pf) (u_labels rsc) \<longrightarrow>
            checkFilters L ghsi rsc =
              Normal (''Failed to pass label check on resource '' @ u_name rsc))
       \<and> ((sub_package sub = [] \<or> sub_package sub = u_name rsc)
            \<and> LabelChecker L (pf_labelSelector pf) (u_labels rsc)
            \<and> pf_annotations pf = Some annos \<and> distinct (map fst annos) \<and> (k, v) \<in> set annos
            \<and> mapIndex (u_annotations rsc) k \<noteq> v
            \<and> (\<forall>kv \<in> set annos. fst kv \<noteq> k \<longrightarrow> mapIndex (u_annotations rsc) (fst kv) = snd kv)
            \<longrightarrow>
            checkFilters L ghsi rsc =
              Normal (''Failed to pass annotation check to deployable '' @ u_name rsc)
            \<and> checkFilters L ghsi (rsc\<lparr>u_annotations := AList.update k v (u_annotations rsc)\<rparr>)
                = Normal [])"
proof (intro conjI impI)
  show "checkFilters L ghsi rsc = Normal [] \<longleftrightarrow>
            (sub_package sub = [] \<or> sub_package sub = u_name rsc)
            \<and> LabelChecker L (pf_labelSelector pf) (u_labels rsc)
            \<and> (case pf_annotations pf of
                  None \<Rightarrow> True
                | Some annos \<Rightarrow> \<forall>kv \<in> set annos. mapIndex (u_annotations rsc) (fst kv) = snd kv)"
    using assms
    by (auto simp: checkFilters_def annotationsMatched_iff split: option.splits)
next
  assume "sub_package sub \<noteq> [] \<and> sub_package sub \<noteq> u_name rsc"
  then show "checkFilters L ghsi rsc =
      Normal (''Name does not match, skiping:'' @ sub_package sub @ ''|'' @ u_name rsc)"
    using assms by (simp add: checkFilters_def)
next
  assume "(sub_package sub = [] \<or> sub_package sub = u_name rsc)
            \<and> \<not> LabelChecker L (pf_labelSelector pf) (u_labels rsc)"
  then show "checkFilters L ghsi rsc =
      Normal (''Failed to pass label check on resource '' @ u_name rsc)"
    using assms by (auto simp: checkFilters_def)
next
  assume h: "(sub_package sub = [] \<or> sub_package sub = u_name rsc)
            \<and> LabelChecker L (pf_labelSelector pf) (u_labels rsc)
            \<and> pf_annotations pf = Some annos \<and> distinct (map fst annos) \<and> (k, v) \<in> set annos
            \<and> mapIndex (u_annotations rsc) k \<noteq> v
            \<and> (\<forall>kv \<in> set annos. fst kv \<noteq> k \<longrightarrow> mapIndex (u_annotations rsc) (fst kv) = snd kv)"
  then have "\<not> annotationsMatched annos (u_annotations rsc)"
    unfolding annotationsMatched_iff by force
  with h assms show "checkFilters L ghsi rsc =
      Normal (''Failed to pass annotation check to deployable '' @ u_name rsc)"
    by (auto simp: checkFilters_def)
  have "snd kv = v" if "kv \<in> set annos" and "fst kv = k" for kv
  proof -
    from h have d: "distinct (map fst annos)" and m: "(k, v) \<in> set annos" by simp_all
    from that have "(k, snd kv) \<in> set annos" by (metis prod.collapse)
    with d m show ?thesis by (meson eq_key_imp_eq_value)
  qed
  with h have "annotationsMatched annos (AList.update k v (u_annotations rsc))"
    by (auto simp: annotationsMatched_iff mapIndex_update)
  with h assms show "checkFilters L ghsi (rsc\<lparr>u_annotations := AList.update k v (u_annotations rsc)\<rparr>)
                = Normal []"
    by (auto simp: checkFilters_def)
qed

theorem checkFilters_conjunction_witness:
  "checkFilters lib0 itemGold rscSilver
     = Normal ''Failed to pass annotation check to deployable cfg''
   \<and> checkFilters lib0 itemGold
       (rscSilver\<lparr>u_annotations := AList.update ''tier'' ''gold'' (u_annotations rscSilver)\<rparr>)
     = Normal []"
  using checkFilters_conjunction [of itemGold subGold pfGold lib0 rscSilver
      "[(''tier'', ''gold'')]" "''tier''" "''gold''"]
  by (simp add: itemGold_def subGold_def pfGold_def item0_def sub0_def pf0_def rscSilver_def
      lib0_def mapIndex_def)

section \<open>The test for a Kubernetes resource\<close>

text \<open>
  C5, as stated, fails on the code. The manifest \<^verbatim>\<open>half.yaml\<close> carries an
  \<^verbatim>\<open>apiVersion\<close> and no \<^verbatim>\<open>kind\<close>: the loop body skips it with no event, although the
  conversion and registration branch, run on the same file, registers a deployable.
\<close>

theorem fileBody_one_marker_counterexample:
  "kr_apiVersion (yamlKubeResource codec0 halfFile) = ''v1''
   \<and> kr_kind (yamlKubeResource codec0 halfFile) = []
   \<and> fileBody env0 item0 (hostKey sub0) (k8sSource env0 sub0) ''/tmp/ns/ch/''
        \<lparr>fi_name = ''half.yaml'', fi_regular = True\<rparr> ([], []) = Normal (Continue ([], []))
   \<and> applyResource env0 item0 (hostKey sub0) (k8sSource env0 sub0) halfFile ([], []) =
       Normal (Continue
         ([RegisterTemplate \<lparr>nn_namespace = ''subns'', nn_name = ''sub''\<rparr>
             \<lparr>dpl_name = ''ch--half'', dpl_namespace = ''ns'', dpl_template = ''json:/subns/half'',
              dpl_annotations = [(''app.ibm.com/is-local-deployable'', ''true'')]\<rparr>
             ''subgbk8s-subns/sub'',
           AddValidResource \<lparr>gvk_group = [], gvk_version = ''v1'', gvk_kind = []\<rparr>
             \<lparr>nn_namespace = ''subns'', nn_name = ''sub''\<rparr>
             \<lparr>nn_namespace = ''ns'', nn_name = ''ch--half''\<rparr>],
          [''ch--half'']))"
  by (simp add: fileBody_def applyResource_def subscribeResource_def finishDeployable_def
      checkFilters_def env0_def codec0_def fs0_def lib0_def sync0_def item0_def sub0_def pf0_def
      ch0_def hostKey_def k8sSource_def nnString_def halfFile_def cfgFile_def filepathExt_def
      EqualFold_def toLowerASCII_def stripSlash_def Let_def)

text \<open>
  C5, amended. For a regular file with extension \<^verbatim>\<open>.yml\<close> or \<^verbatim>\<open>.yaml\<close> (in any
  case), the loop body runs the conversion and registration branch iff the decoded
  document carries both an \<^verbatim>\<open>apiVersion\<close> and a \<^verbatim>\<open>kind\<close>; a document that lacks
  either one is skipped: the state is unchanged and no event is recorded.
\<close>

theorem fileBody_markers:
  assumes "fi_regular f"
    and "EqualFold (filepathExt (fi_name f)) ''.yml'' \<or> EqualFold (filepathExt (fi_name f)) ''.yaml''"
    and "file = readFile (fs E) (filepathJoin (lib E) [dir, fi_name f])"
    and "t = yamlKubeResource (codec E) file"
  shows "fileBody E ghsi hostkey syncsource dir f st =
           (if kr_apiVersion t \<noteq> [] \<and> kr_kind t \<noteq> []
            then applyResource E ghsi hostkey syncsource file st
            else Normal (Continue st))"
  using assms by (simp add: fileBody_def Let_def)

theorem fileBody_markers_witness:
  "fileBody env0 item0 (hostKey sub0) (k8sSource env0 sub0) ''/tmp/ns/ch/''
        \<lparr>fi_name = ''cfg.yaml'', fi_regular = True\<rparr> ([], []) =
       Normal (Continue
         ([RegisterTemplate \<lparr>nn_namespace = ''subns'', nn_name = ''sub''\<rparr>
             \<lparr>dpl_name = ''ch-ConfigMap-cfg'', dpl_namespace = ''ns'',
              dpl_template = ''json:ConfigMap/subns/cfg'',
              dpl_annotations = [(''app.ibm.com/is-local-deployable'', ''true'')]\<rparr>
             ''subgbk8s-subns/sub'',
           AddValidResource \<lparr>gvk_group = [], gvk_version = ''v1'', gvk_kind = ''ConfigMap''\<rparr>
             \<lparr>nn_namespace = ''subns'', nn_name = ''sub''\<rparr>
             \<lparr>nn_namespace = ''ns'', nn_name = ''ch-ConfigMap-cfg''\<rparr>],
          [''ch-ConfigMap-cfg'']))"
  using fileBody_markers [of "\<lparr>fi_name = ''cfg.yaml'', fi_regular = True\<rparr>" cfgFile env0
      "''/tmp/ns/ch/''" "\<lparr>kr_apiVersion = ''v1'', kr_kind = ''ConfigMap''\<rparr>"
      item0 "hostKey sub0" "k8sSource env0 sub0" "([], [])"]
  by (simp add: applyResource_def subscribeResource_def finishDeployable_def
      checkFilters_def env0_def codec0_def fs0_def lib0_def sync0_def item0_def sub0_def pf0_def
      ch0_def hostKey_def k8sSource_def nnString_def halfFile_def cfgFile_def filepathExt_def
      EqualFold_def toLowerASCII_def stripSlash_def Let_def)

section \<open>The classifier\<close>

text \<open>
  C10. \<open>sortClonedGitRepo\<close> reads \<^verbatim>\<open>Subscription.Spec.PackageFilter.FilterRef\<close> before
  anything else: with no package filter it panics on the nil pointer, and so does every
  cycle whose fetch returns an identifier other than the stored one.
\<close>

theorem nil_PackageFilter_panics:
  assumes "Subscription ghsi = Some sub" and "sub_packageFilter sub = None"
  shows "sortClonedGitRepo E tr ghsi = Panic NilPointerDereference
       \<and> (cloneGitRepo E tr ghsi = Normal (tr1, Inr cid) \<and> cid \<noteq> commitID ghsi \<longrightarrow>
            doSubscription E tr ghsi = Panic NilPointerDereference)"
  using assms by (simp add: sortClonedGitRepo_def doSubscription_def)

theorem nil_PackageFilter_panics_witness:
  "Subscription itemNoFilter = Some (sub0\<lparr>sub_packageFilter := None\<rparr>)
   \<and> cloneGitRepo env0 [] itemNoFilter =
       Normal ([RemoveAll ''/tmp/ns/ch'',
                PlainClone ''/tmp/ns/ch'' ''https://github.com/org/repo.git''], Inr ''c1'')
   \<and> doSubscription env0 [] itemNoFilter = Panic NilPointerDereference"
  using nil_PackageFilter_panics [of itemNoFilter "sub0\<lparr>sub_packageFilter := None\<rparr>" env0 "[]"
     "[RemoveAll ''/tmp/ns/ch'', PlainClone ''/tmp/ns/ch'' ''https://github.com/org/repo.git'']"
     "''c1''"]
  by (simp add: itemNoFilter_def item0_def sub0_def cloneGitRepo_def cloneAuth_def ch0_def
      env0_def fs0_def lib0_def stripSlash_def Let_def)

text \<open>
  C8. The repository root is \<^verbatim>\<open>/root\<close>; the walk visits \<^verbatim>\<open>/root\<close>, \<^verbatim>\<open>/root/.git\<close>,
  \<^verbatim>\<open>/root/a\<close> and \<^verbatim>\<open>/root/a/b\<close> (and the two chart manifests); \<^verbatim>\<open>/root/a\<close> and
  \<^verbatim>\<open>/root/a/b\<close> hold a \<^verbatim>\<open>Chart.yaml\<close>, \<^verbatim>\<open>/root\<close> and \<^verbatim>\<open>/root/.git\<close> do not. Then the
  chart directories are \<^verbatim>\<open>/root/a/\<close> alone and the resource directories \<^verbatim>\<open>/root/\<close>
  alone (the code keys both maps by the path with a trailing slash).
\<close>

theorem classifier_example:
  assumes "\<not> statOk F ''/root/Chart.yaml''" and "\<not> statOk F ''/root/.git/Chart.yaml''"
    and "statOk F ''/root/a/Chart.yaml''" and "statOk F ''/root/a/b/Chart.yaml''"
    and "walk F resourcePath = rootVisits"
  shows "classify F ''/root'' resourcePath =
           Inr \<lparr>chartDirs = [(''/root/a/'', ''/root/a/'')],
                resourceDirs = [(''/root/'', ''/root/'')],
                currentChartDir = ''/root/a/''\<rparr>"
  using assms by (simp add: classify_def rootVisits_def walkFn_def)

theorem classifier_example_witness:
  "classify fsRoot ''/root'' ''/root'' =
     Inr \<lparr>chartDirs = [(''/root/a/'', ''/root/a/'')],
          resourceDirs = [(''/root/'', ''/root/'')],
          currentChartDir = ''/root/a/''\<rparr>"
  using classifier_example [of fsRoot "''/root''"]
  by (simp add: fsRoot_def fs0_def)

section \<open>The two subscription passes\<close>

text \<open>Unfolding sets for running the functions in the concrete world.\<close>

lemmas world_defs = env0_def envRefuse_def envWalkFails_def envOverrideFails_def envRefuseChart_def
  envMarshalFails_def envNoRelease_def lib0_def codec0_def fs0_def sync0_def item0_def sub0_def pf0_def ch0_def
  release0_def cfgFile_def halfFile_def stripSlash_def dplCfg_def dplDemo_def dplOther_def
  gvkCfg_def hk0_def index0_def dirs0_def trFetch_def trResources_def trResourcesRefused_def
  trCharts_def

lemmas code_defs = doSubscription_def cloneGitRepo_def cloneAuth_def sortClonedGitRepo_def
  classify_def walkFn_def filterCharts_def removeNoMatchingName_def subscribeResources_def
  fileBody_def applyResource_def subscribeResource_def finishDeployable_def checkFilters_def
  filepathExt_def EqualFold_def toLowerASCII_def subscribeHelmCharts_def chartBody_def
  chartRegister_def lookupRelease_def newReleaseSpec_def override_def getOverrides_def
  nnString_def Let_def

lemmas eval_defs = world_defs code_defs hostKey_def k8sSource_def helmSource_def releaseKey_def
  chartDeployable_def

lemma filesLoop_append:
  "filesLoop E ghsi hk src dir (xs @ ys) st =
     (case filesLoop E ghsi hk src dir xs st of
        Normal (Continue st1) \<Rightarrow> filesLoop E ghsi hk src dir ys st1
      | r \<Rightarrow> r)"
  by (induction xs arbitrary: st) (auto split: outcome.splits flow.splits)

lemma dirsLoop_append:
  "dirsLoop E ghsi hk src (xs @ ys) st =
     (case dirsLoop E ghsi hk src xs st of
        Normal (Continue st1) \<Rightarrow> dirsLoop E ghsi hk src ys st1
      | r \<Rightarrow> r)"
  by (induction xs arbitrary: st) (auto split: outcome.splits flow.splits)

lemma resource_registration_failure:
  assumes S: "Subscription ghsi = Some sub"
    and pre: "dirsLoop E ghsi (hostKey sub) (k8sSource E sub) pre
                (tr0 @ [CreateValiadtor (k8sSource E sub)], []) = Normal (Continue st1)"
    and rd: "readDir (fs E) dir = Inr (fpre @ f # fpost)"
    and fpre: "filesLoop E ghsi (hostKey sub) (k8sSource E sub) dir fpre st1
                = Normal (Continue (tr1, pk1))"
    and reg: "fi_regular f"
    and ext: "EqualFold (filepathExt (fi_name f)) ''.yml'' \<or> EqualFold (filepathExt (fi_name f)) ''.yaml''"
    and fl: "fileBytes = readFile (fs E) (filepathJoin (lib E) [dir, fi_name f])"
    and markers: "kr_apiVersion (yamlKubeResource (codec E) fileBytes) \<noteq> []"
                 "kr_kind (yamlKubeResource (codec E) fileBytes) \<noteq> []"
    and conv: "subscribeResource E tr1 ghsi fileBytes pk1 = Normal (tr2, pk2, Inr (dpl, gvk))"
    and fail: "registerTemplate (sync E) tr2 (hostKey sub) dpl (k8sSource E sub) = Some err"
  shows "subscribeResources E tr0 ghsi (pre @ (key, dir) # post) =
           Normal (tr2 @ [RegisterTemplate (hostKey sub) dpl (k8sSource E sub),
                          SetInClusterPackageStatus (dpl_name dpl) err])"
proof -
  let ?hk = "hostKey sub" and ?src = "k8sSource E sub"
  have body: "fileBody E ghsi ?hk ?src dir f (tr1, pk1) =
      Normal (Return (tr2 @ [RegisterTemplate ?hk dpl ?src,
                             SetInClusterPackageStatus (dpl_name dpl) err],
                      List.insert (dpl_name dpl) pk2))"
    using reg ext fl markers conv fail
    by (simp add: fileBody_def applyResource_def Let_def)
  have files: "filesLoop E ghsi ?hk ?src dir (fpre @ f # fpost) st1 =
      Normal (Return (tr2 @ [RegisterTemplate ?hk dpl ?src,
                             SetInClusterPackageStatus (dpl_name dpl) err],
                      List.insert (dpl_name dpl) pk2))"
    by (simp add: filesLoop_append fpre body)
  have dirs: "dirsLoop E ghsi ?hk ?src (pre @ (key, dir) # post)
                (tr0 @ [CreateValiadtor ?src], []) =
      Normal (Return (tr2 @ [RegisterTemplate ?hk dpl ?src,
                             SetInClusterPackageStatus (dpl_name dpl) err],
                      List.insert (dpl_name dpl) pk2))"
    by (simp add: dirsLoop_append pre rd files)
  show ?thesis
    using S dirs by (simp add: subscribeResources_def hostKey_def k8sSource_def Let_def)
qed

lemma chart_registration_failure:
  assumes look: "lookupRelease E ghsi sub packageName (cv0 # cvs) tr = Normal (Inr (helmRelease, e1))"
    and ov: "override (codec E) sub helmRelease = Inr helmRelease1"
    and js: "jsonMarshalRelease (codec E) helmRelease1 = Inr raw"
    and fail: "registerTemplate (sync E) (tr @ [GetHelmRelease (releaseKey sub packageName)]) hk
                 (chartDeployable E ghsi sub packageName cv0 raw) src = Some err"
  shows "chartsLoop E ghsi sub hk src ((packageName, cv0 # cvs) # rest) (tr, pkgMap, e0) =
         chartsLoop E ghsi sub hk src rest
           (tr @ [GetHelmRelease (releaseKey sub packageName),
                  RegisterTemplate hk (chartDeployable E ghsi sub packageName cv0 raw) src,
                  SetInClusterPackageStatus
                    (dpl_name (chartDeployable E ghsi sub packageName cv0 raw)) err],
            List.insert (dpl_name (chartDeployable E ghsi sub packageName cv0 raw)) pkgMap, e1)"
  using assms
  by (simp add: chartBody_def chartRegister_def chartDeployable_def releaseKey_def Let_def)

lemma chart_override_failure:
  assumes look: "lookupRelease E ghsi sub packageName chartVersions tr = Normal (Inr (helmRelease, e1))"
    and ov: "override (codec E) sub helmRelease = Inl err"
  shows "chartsLoop E ghsi sub hk src ((packageName, chartVersions) # rest) (tr, pkgMap, e0) =
           Normal (ChartReturned (tr @ [GetHelmRelease (releaseKey sub packageName)]) err)"
  using assms
  by (simp add: chartBody_def chartRegister_def releaseKey_def Let_def)

lemma chart_marshal_failure:
  assumes look: "lookupRelease E ghsi sub packageName (cv0 # cvs) tr = Normal (Inr (helmRelease, e1))"
    and ov: "override (codec E) sub helmRelease = Inr helmRelease1"
    and js: "jsonMarshalRelease (codec E) helmRelease1 = Inl err"
  shows "chartsLoop E ghsi sub hk src ((packageName, cv0 # cvs) # rest) (tr, pkgMap, e0) =
         chartsLoop E ghsi sub hk src rest
           (tr @ [GetHelmRelease (releaseKey sub packageName)], pkgMap, e1)"
  using assms
  by (simp add: chartBody_def chartRegister_def releaseKey_def Let_def)

lemma subscribeHelmCharts_commitID:
  assumes "subscribeHelmCharts E tr ghsi idx = Normal (tr1, ghsi1, r)"
  shows "commitID ghsi1 = commitID ghsi"
  using assms
  by (auto simp: subscribeHelmCharts_def Let_def split: option.splits outcome.splits chartExit.splits if_splits)


text \<open>
  C3. Resource pass: when the registration of the deployable of a file fails, wherever
  the file stands among the directories and files, \<open>subscribeResources\<close> ends with the
  trace at that point extended by the registration call and by the status call that
  marks the package failed: no later file or directory is processed, and the validator
  is not applied. Chart pass: when the registration of the deployable of a package fails,
  the loop records the same two calls and goes on with the remaining packages; and when
  that package is the first of the index, \<open>subscribeHelmCharts\<close> is the rest of the loop
  from that state followed by the validation of the status, so the registration error is
  not what the pass returns.
\<close>

theorem registration_failure_policy:
  assumes "Subscription ghsi = Some sub"
  shows "(dirsLoop E ghsi (hostKey sub) (k8sSource E sub) pre
             (tr0 @ [CreateValiadtor (k8sSource E sub)], []) = Normal (Continue st1)
          \<and> readDir (fs E) dir = Inr (fpre @ f # fpost)
          \<and> filesLoop E ghsi (hostKey sub) (k8sSource E sub) dir fpre st1
               = Normal (Continue (tr1, pk1))
          \<and> fi_regular f
          \<and> (EqualFold (filepathExt (fi_name f)) ''.yml'' \<or> EqualFold (filepathExt (fi_name f)) ''.yaml'')
          \<and> fileBytes = readFile (fs E) (filepathJoin (lib E) [dir, fi_name f])
          \<and> kr_apiVersion (yamlKubeResource (codec E) fileBytes) \<noteq> []
          \<and> kr_kind (yamlKubeResource (codec E) fileBytes) \<noteq> []
          \<and> subscribeResource E tr1 ghsi fileBytes pk1 = Normal (tr2, pk2, Inr (dpl, gvk))
          \<and> registerTemplate (sync E) tr2 (hostKey sub) dpl (k8sSource E sub) = Some err
          \<longrightarrow>
          subscribeResources E tr0 ghsi (pre @ (key, dir) # post) =
            Normal (tr2 @ [RegisterTemplate (hostKey sub) dpl (k8sSource E sub),
                           SetInClusterPackageStatus (dpl_name dpl) err]))
       \<and> (lookupRelease E ghsi sub packageName (cv0 # cvs) tr = Normal (Inr (helmRelease, e1))
          \<and> override (codec E) sub helmRelease = Inr helmRelease1
          \<and> jsonMarshalRelease (codec E) helmRelease1 = Inr raw
          \<and> registerTemplate (sync E) (tr @ [GetHelmRelease (releaseKey sub packageName)])
               (hostKey sub) (chartDeployable E ghsi sub packageName cv0 raw) (helmSource E sub)
               = Some err1
          \<longrightarrow>
          chartsLoop E ghsi sub (hostKey sub) (helmSource E sub)
              ((packageName, cv0 # cvs) # rest) (tr, pkgMap, e0) =
            chartsLoop E ghsi sub (hostKey sub) (helmSource E sub) rest
              (tr @ [GetHelmRelease (releaseKey sub packageName),
                     RegisterTemplate (hostKey sub)
                       (chartDeployable E ghsi sub packageName cv0 raw) (helmSource E sub),
                     SetInClusterPackageStatus
                       (dpl_name (chartDeployable E ghsi sub packageName cv0 raw)) err1],
               List.insert (dpl_name (chartDeployable E ghsi sub packageName cv0 raw)) pkgMap,
               e1)
          \<and> subscribeHelmCharts E tr ghsi ((packageName, cv0 # cvs) # rest) =
            (case chartsLoop E ghsi sub (hostKey sub) (helmSource E sub) rest
                    (tr @ [GetHelmRelease (releaseKey sub packageName),
                           RegisterTemplate (hostKey sub)
                             (chartDeployable E ghsi sub packageName cv0 raw) (helmSource E sub),
                           SetInClusterPackageStatus
                             (dpl_name (chartDeployable E ghsi sub packageName cv0 raw)) err1],
                     [dpl_name (chartDeployable E ghsi sub packageName cv0 raw)], e1) of
               Panic p \<Rightarrow> Panic p
             | Normal (ChartReturned trR errR) \<Rightarrow> Normal (trR, ghsi, Some errR)
             | Normal (ChartFallThrough (trL, pkgs, errL)) \<Rightarrow>
                 if validatePackages (sync E) trL sub pkgs = None
                 then Normal (trL @ [ValidatePackagesInSubscriptionStatus sub pkgs], ghsi, errL)
                 else
                   (let sub1 = (case getSubscription (sync E)
                                       (trL @ [ValidatePackagesInSubscriptionStatus sub pkgs])
                                       (hostKey sub) of
                                  Inl errG \<Rightarrow> sub
                                | Inr fetched \<Rightarrow> fetched)
                    in Normal
                         (trL @ [ValidatePackagesInSubscriptionStatus sub pkgs,
                                 GetSubscription (hostKey sub),
                                 ValidatePackagesInSubscriptionStatus sub1 pkgs],
                          ghsi\<lparr>Subscription := Some sub1\<rparr>,
                          validatePackages (sync E)
                            (trL @ [ValidatePackagesInSubscriptionStatus sub pkgs,
                                    GetSubscription (hostKey sub)]) sub1 pkgs))))"
proof (intro conjI impI)
  assume "dirsLoop E ghsi (hostKey sub) (k8sSource E sub) pre
             (tr0 @ [CreateValiadtor (k8sSource E sub)], []) = Normal (Continue st1)
          \<and> readDir (fs E) dir = Inr (fpre @ f # fpost)
          \<and> filesLoop E ghsi (hostKey sub) (k8sSource E sub) dir fpre st1
               = Normal (Continue (tr1, pk1))
          \<and> fi_regular f
          \<and> (EqualFold (filepathExt (fi_name f)) ''.yml'' \<or> EqualFold (filepathExt (fi_name f)) ''.yaml'')
          \<and> fileBytes = readFile (fs E) (filepathJoin (lib E) [dir, fi_name f])
          \<and> kr_apiVersion (yamlKubeResource (codec E) fileBytes) \<noteq> []
          \<and> kr_kind (yamlKubeResource (codec E) fileBytes) \<noteq> []
          \<and> subscribeResource E tr1 ghsi fileBytes pk1 = Normal (tr2, pk2, Inr (dpl, gvk))
          \<and> registerTemplate (sync E) tr2 (hostKey sub) dpl (k8sSource E sub) = Some err"
  then show "subscribeResources E tr0 ghsi (pre @ (key, dir) # post) =
            Normal (tr2 @ [RegisterTemplate (hostKey sub) dpl (k8sSource E sub),
                           SetInClusterPackageStatus (dpl_name dpl) err])"
    by (elim conjE) (rule resource_registration_failure [OF assms], assumption+)
next
  assume h: "lookupRelease E ghsi sub packageName (cv0 # cvs) tr = Normal (Inr (helmRelease, e1))
          \<and> override (codec E) sub helmRelease = Inr helmRelease1
          \<and> jsonMarshalRelease (codec E) helmRelease1 = Inr raw
          \<and> registerTemplate (sync E) (tr @ [GetHelmRelease (releaseKey sub packageName)])
               (hostKey sub) (chartDeployable E ghsi sub packageName cv0 raw) (helmSource E sub)
               = Some err1"
  then show "chartsLoop E ghsi sub (hostKey sub) (helmSource E sub)
              ((packageName, cv0 # cvs) # rest) (tr, pkgMap, e0) =
            chartsLoop E ghsi sub (hostKey sub) (helmSource E sub) rest
              (tr @ [GetHelmRelease (releaseKey sub packageName),
                     RegisterTemplate (hostKey sub)
                       (chartDeployable E ghsi sub packageName cv0 raw) (helmSource E sub),
                     SetInClusterPackageStatus
                       (dpl_name (chartDeployable E ghsi sub packageName cv0 raw)) err1],
               List.insert (dpl_name (chartDeployable E ghsi sub packageName cv0 raw)) pkgMap,
               e1)"
    by (elim conjE) (rule chart_registration_failure, assumption+)
  from h have "chartsLoop E ghsi sub (hostKey sub) (helmSource E sub)
              ((packageName, cv0 # cvs) # rest) (tr, [], None) =
            chartsLoop E ghsi sub (hostKey sub) (helmSource E sub) rest
              (tr @ [GetHelmRelease (releaseKey sub packageName),
                     RegisterTemplate (hostKey sub)
                       (chartDeployable E ghsi sub packageName cv0 raw) (helmSource E sub),
                     SetInClusterPackageStatus
                       (dpl_name (chartDeployable E ghsi sub packageName cv0 raw)) err1],
               List.insert (dpl_name (chartDeployable E ghsi sub packageName cv0 raw)) [],
               e1)"
    by (elim conjE) (rule chart_registration_failure, assumption+)
  with assms show "subscribeHelmCharts E tr ghsi ((packageName, cv0 # cvs) # rest) =
            (case chartsLoop E ghsi sub (hostKey sub) (helmSource E sub) rest
                    (tr @ [GetHelmRelease (releaseKey sub packageName),
                           RegisterTemplate (hostKey sub)
                             (chartDeployable E ghsi sub packageName cv0 raw) (helmSource E sub),
                           SetInClusterPackageStatus
                             (dpl_name (chartDeployable E ghsi sub packageName cv0 raw)) err1],
                     [dpl_name (chartDeployable E ghsi sub packageName cv0 raw)], e1) of
               Panic p \<Rightarrow> Panic p
             | Normal (ChartReturned trR errR) \<Rightarrow> Normal (trR, ghsi, Some errR)
             | Normal (ChartFallThrough (trL, pkgs, errL)) \<Rightarrow>
                 if validatePackages (sync E) trL sub pkgs = None
                 then Normal (trL @ [ValidatePackagesInSubscriptionStatus sub pkgs], ghsi, errL)
                 else
                   (let sub1 = (case getSubscription (sync E)
                                       (trL @ [ValidatePackagesInSubscriptionStatus sub pkgs])
                                       (hostKey sub) of
                                  Inl errG \<Rightarrow> sub
                                | Inr fetched \<Rightarrow> fetched)
                    in Normal
                         (trL @ [ValidatePackagesInSubscriptionStatus sub pkgs,
                                 GetSubscription (hostKey sub),
                                 ValidatePackagesInSubscriptionStatus sub1 pkgs],
                          ghsi\<lparr>Subscription := Some sub1\<rparr>,
                          validatePackages (sync E)
                            (trL @ [ValidatePackagesInSubscriptionStatus sub pkgs,
                                    GetSubscription (hostKey sub)]) sub1 pkgs)))"
    by (simp add: subscribeHelmCharts_def hostKey_def helmSource_def Let_def
        split: outcome.splits chartExit.splits)
qed


theorem registration_failure_policy_witness:
  "subscribeResources envRefuse trFetch item0 dirs0 = Normal (trFetch @ trResourcesRefused)
   \<and> chartsLoop envRefuseChart item0 sub0 hk0 ''subgbhelm-subns/sub'' index0 ([], [], None) =
      Normal (ChartFallThrough
        ([GetHelmRelease \<lparr>nn_namespace = ''subns'', nn_name = ''demo-sub-subns''\<rparr>,
          RegisterTemplate hk0 dplDemo ''subgbhelm-subns/sub'',
          SetInClusterPackageStatus ''ch-demo-1.0.0'' (Err ''registration refused''),
          GetHelmRelease \<lparr>nn_namespace = ''subns'', nn_name = ''other-sub-subns''\<rparr>,
          RegisterTemplate hk0 dplOther ''subgbhelm-subns/sub''],
         [''ch-other-2.0.0'', ''ch-demo-1.0.0''], None))
   \<and> subscribeHelmCharts envRefuseChart [] item0 index0 =
      Normal
        ([GetHelmRelease \<lparr>nn_namespace = ''subns'', nn_name = ''demo-sub-subns''\<rparr>,
          RegisterTemplate hk0 dplDemo ''subgbhelm-subns/sub'',
          SetInClusterPackageStatus ''ch-demo-1.0.0'' (Err ''registration refused''),
          GetHelmRelease \<lparr>nn_namespace = ''subns'', nn_name = ''other-sub-subns''\<rparr>,
          RegisterTemplate hk0 dplOther ''subgbhelm-subns/sub'',
          ValidatePackagesInSubscriptionStatus sub0 [''ch-other-2.0.0'', ''ch-demo-1.0.0'']],
         item0, None)"
proof -
  have S: "Subscription item0 = Some sub0"
    by (simp add: item0_def)
  have R: "dirsLoop envRefuse item0 (hostKey sub0) (k8sSource envRefuse sub0) []
             (trFetch @ [CreateValiadtor (k8sSource envRefuse sub0)], [])
             = Normal (Continue (trFetch @ [CreateValiadtor ''subgbk8s-subns/sub''], []))
     \<and> readDir (fs envRefuse) ''/tmp/ns/ch/'' =
         Inr ([\<lparr>fi_name = ''.git'', fi_regular = False\<rparr>]
              @ \<lparr>fi_name = ''cfg.yaml'', fi_regular = True\<rparr>
              # [\<lparr>fi_name = ''demo'', fi_regular = False\<rparr>,
                 \<lparr>fi_name = ''half.yaml'', fi_regular = True\<rparr>,
                 \<lparr>fi_name = ''other'', fi_regular = False\<rparr>])
     \<and> filesLoop envRefuse item0 (hostKey sub0) (k8sSource envRefuse sub0) ''/tmp/ns/ch/''
         [\<lparr>fi_name = ''.git'', fi_regular = False\<rparr>]
         (trFetch @ [CreateValiadtor ''subgbk8s-subns/sub''], [])
         = Normal (Continue (trFetch @ [CreateValiadtor ''subgbk8s-subns/sub''], []))
     \<and> fi_regular \<lparr>fi_name = ''cfg.yaml'', fi_regular = True\<rparr>
     \<and> (EqualFold (filepathExt (fi_name \<lparr>fi_name = ''cfg.yaml'', fi_regular = True\<rparr>)) ''.yml''
        \<or> EqualFold (filepathExt (fi_name \<lparr>fi_name = ''cfg.yaml'', fi_regular = True\<rparr>)) ''.yaml'')
     \<and> cfgFile = readFile (fs envRefuse)
         (filepathJoin (lib envRefuse)
            [''/tmp/ns/ch/'', fi_name \<lparr>fi_name = ''cfg.yaml'', fi_regular = True\<rparr>])
     \<and> kr_apiVersion (yamlKubeResource (codec envRefuse) cfgFile) \<noteq> []
     \<and> kr_kind (yamlKubeResource (codec envRefuse) cfgFile) \<noteq> []
     \<and> subscribeResource envRefuse (trFetch @ [CreateValiadtor ''subgbk8s-subns/sub'']) item0
         cfgFile []
         = Normal (trFetch @ [CreateValiadtor ''subgbk8s-subns/sub''], [], Inr (dplCfg, gvkCfg))
     \<and> registerTemplate (sync envRefuse) (trFetch @ [CreateValiadtor ''subgbk8s-subns/sub''])
         (hostKey sub0) dplCfg (k8sSource envRefuse sub0) = Some (Err ''registration refused'')"
    by (simp add: eval_defs)
  have H: "lookupRelease envRefuseChart item0 sub0 ''demo''
             (\<lparr>cv_name = ''demo'', cv_version = ''1.0.0'', cv_tillerVersion = [],
               cv_urls = [''demo''],
               cv_digest = ''generated-by-multicloud-operators-subscription''\<rparr> # []) []
             = Normal (Inr ((release0 (releaseKey sub0 ''demo''))
                 \<lparr>hr_apiVersion := ''app.ibm.com/v1alpha1'', hr_kind := ''HelmRelease'',
                  hr_spec := \<lparr>hrs_sourceType = ''github'',
                      hrs_urls = [''https://github.com/org/repo.git''],
                      hrs_chartPath = ''demo'', hrs_configMapRef = None, hrs_secretRef = None,
                      hrs_chartName = ''demo'', hrs_releaseName = ''rel'',
                      hrs_version = ''1.0.0''\<rparr>\<rparr>, None))
     \<and> override (codec envRefuseChart) sub0 ((release0 (releaseKey sub0 ''demo''))
                 \<lparr>hr_apiVersion := ''app.ibm.com/v1alpha1'', hr_kind := ''HelmRelease'',
                  hr_spec := \<lparr>hrs_sourceType = ''github'',
                      hrs_urls = [''https://github.com/org/repo.git''],
                      hrs_chartPath = ''demo'', hrs_configMapRef = None, hrs_secretRef = None,
                      hrs_chartName = ''demo'', hrs_releaseName = ''rel'',
                      hrs_version = ''1.0.0''\<rparr>\<rparr>)
         = Inr ((release0 (releaseKey sub0 ''demo''))
                 \<lparr>hr_apiVersion := ''app.ibm.com/v1alpha1'', hr_kind := ''HelmRelease'',
                  hr_spec := \<lparr>hrs_sourceType = ''github'',
                      hrs_urls = [''https://github.com/org/repo.git''],
                      hrs_chartPath = ''demo'', hrs_configMapRef = None, hrs_secretRef = None,
                      hrs_chartName = ''demo'', hrs_releaseName = ''rel'',
                      hrs_version = ''1.0.0''\<rparr>\<rparr>)
     \<and> jsonMarshalRelease (codec envRefuseChart) ((release0 (releaseKey sub0 ''demo''))
                 \<lparr>hr_apiVersion := ''app.ibm.com/v1alpha1'', hr_kind := ''HelmRelease'',
                  hr_spec := \<lparr>hrs_sourceType = ''github'',
                      hrs_urls = [''https://github.com/org/repo.git''],
                      hrs_chartPath = ''demo'', hrs_configMapRef = None, hrs_secretRef = None,
                      hrs_chartName = ''demo'', hrs_releaseName = ''rel'',
                      hrs_version = ''1.0.0''\<rparr>\<rparr>) = Inr ''json:demo-sub-subns''
     \<and> registerTemplate (sync envRefuseChart) ([] @ [GetHelmRelease (releaseKey sub0 ''demo'')])
         (hostKey sub0)
         (chartDeployable envRefuseChart item0 sub0 ''demo''
            \<lparr>cv_name = ''demo'', cv_version = ''1.0.0'', cv_tillerVersion = [],
             cv_urls = [''demo''],
             cv_digest = ''generated-by-multicloud-operators-subscription''\<rparr>
            ''json:demo-sub-subns'')
         (helmSource envRefuseChart sub0) = Some (Err ''registration refused'')"
    by (simp add: eval_defs)
  note r = registration_failure_policy [where key = "''/tmp/ns/ch/''" and post = "[]",
      OF S, THEN conjunct1, THEN mp, OF R]
  note h = registration_failure_policy [where pkgMap = "[]" and ?e0.0 = None
        and rest = "[(''other'', [\<lparr>cv_name = ''other'', cv_version = ''2.0.0'',
                       cv_tillerVersion = [], cv_urls = [''other''],
                       cv_digest = ''generated-by-multicloud-operators-subscription''\<rparr>])]",
      OF S, THEN conjunct2, THEN mp, OF H]
  from r h show ?thesis
    by (simp add: eval_defs)
qed


text \<open>
  C2, as stated, fails on the code. The override engine fails on the release of \<^verbatim>\<open>demo\<close>,
  the first of the two packages of the index: \<open>subscribeHelmCharts\<close> returns that error
  after the lookup of \<^verbatim>\<open>demo\<close>, and \<^verbatim>\<open>other\<close> is never looked up or registered.
\<close>

theorem override_failure_counterexample:
  "subscribeHelmCharts envOverrideFails [] item0 index0 =
     Normal ([GetHelmRelease \<lparr>nn_namespace = ''subns'', nn_name = ''demo-sub-subns''\<rparr>],
             item0, Some (Err ''override failed''))"
  by (simp add: eval_defs)

text \<open>
  C2, amended. In the chart pass, a failure of \<open>override\<close> on a package's release (the
  override engine, or the YAML encoding and decoding around it) ends the pass at once:
  \<open>subscribeHelmCharts\<close> returns that error, the remaining packages are not processed
  and the status is not validated. A failure to encode the release as JSON for the
  deployable skips that package only: nothing is registered or recorded for it, and the
  loop goes on with the remaining packages.
\<close>

theorem chart_failure_policy:
  assumes "Subscription ghsi = Some sub"
  shows "(lookupRelease E ghsi sub packageName chartVersions tr = Normal (Inr (helmRelease, e1))
          \<and> override (codec E) sub helmRelease = Inl err
          \<longrightarrow>
          chartsLoop E ghsi sub (hostKey sub) (helmSource E sub)
              ((packageName, chartVersions) # rest) (tr, pkgMap, e0) =
            Normal (ChartReturned (tr @ [GetHelmRelease (releaseKey sub packageName)]) err)
          \<and> subscribeHelmCharts E tr ghsi ((packageName, chartVersions) # rest) =
              Normal (tr @ [GetHelmRelease (releaseKey sub packageName)], ghsi, Some err))
       \<and> (lookupRelease E ghsi sub packageName (cv0 # cvs) tr = Normal (Inr (helmRelease, e1))
          \<and> override (codec E) sub helmRelease = Inr helmRelease1
          \<and> jsonMarshalRelease (codec E) helmRelease1 = Inl err1
          \<longrightarrow>
          chartsLoop E ghsi sub (hostKey sub) (helmSource E sub)
              ((packageName, cv0 # cvs) # rest) (tr, pkgMap, e0) =
            chartsLoop E ghsi sub (hostKey sub) (helmSource E sub) rest
              (tr @ [GetHelmRelease (releaseKey sub packageName)], pkgMap, e1))"
proof (intro conjI impI)
  assume h: "lookupRelease E ghsi sub packageName chartVersions tr = Normal (Inr (helmRelease, e1))
          \<and> override (codec E) sub helmRelease = Inl err"
  then show "chartsLoop E ghsi sub (hostKey sub) (helmSource E sub)
              ((packageName, chartVersions) # rest) (tr, pkgMap, e0) =
            Normal (ChartReturned (tr @ [GetHelmRelease (releaseKey sub packageName)]) err)"
    by (elim conjE) (rule chart_override_failure, assumption+)
  from h have "chartsLoop E ghsi sub (hostKey sub) (helmSource E sub)
              ((packageName, chartVersions) # rest) (tr, [], None) =
            Normal (ChartReturned (tr @ [GetHelmRelease (releaseKey sub packageName)]) err)"
    by (elim conjE) (rule chart_override_failure, assumption+)
  with assms show "subscribeHelmCharts E tr ghsi ((packageName, chartVersions) # rest) =
              Normal (tr @ [GetHelmRelease (releaseKey sub packageName)], ghsi, Some err)"
    by (simp add: subscribeHelmCharts_def hostKey_def helmSource_def Let_def)
next
  assume "lookupRelease E ghsi sub packageName (cv0 # cvs) tr = Normal (Inr (helmRelease, e1))
          \<and> override (codec E) sub helmRelease = Inr helmRelease1
          \<and> jsonMarshalRelease (codec E) helmRelease1 = Inl err1"
  then show "chartsLoop E ghsi sub (hostKey sub) (helmSource E sub)
              ((packageName, cv0 # cvs) # rest) (tr, pkgMap, e0) =
            chartsLoop E ghsi sub (hostKey sub) (helmSource E sub) rest
              (tr @ [GetHelmRelease (releaseKey sub packageName)], pkgMap, e1)"
    by (elim conjE) (rule chart_marshal_failure, assumption+)
qed


theorem chart_failure_policy_witness:
  "chartsLoop envOverrideFails item0 sub0 hk0 ''subgbhelm-subns/sub'' index0 ([], [], None) =
     Normal (ChartReturned
       [GetHelmRelease \<lparr>nn_namespace = ''subns'', nn_name = ''demo-sub-subns''\<rparr>]
       (Err ''override failed''))
   \<and> chartsLoop envMarshalFails item0 sub0 hk0 ''subgbhelm-subns/sub'' index0 ([], [], None) =
     Normal (ChartFallThrough
       ([GetHelmRelease \<lparr>nn_namespace = ''subns'', nn_name = ''demo-sub-subns''\<rparr>,
         GetHelmRelease \<lparr>nn_namespace = ''subns'', nn_name = ''other-sub-subns''\<rparr>,
         RegisterTemplate hk0 dplOther ''subgbhelm-subns/sub''],
        [''ch-other-2.0.0''], None))"
proof -
  have S: "Subscription item0 = Some sub0"
    by (simp add: item0_def)
  have O: "lookupRelease envOverrideFails item0 sub0 ''demo''
             [\<lparr>cv_name = ''demo'', cv_version = ''1.0.0'', cv_tillerVersion = [],
               cv_urls = [''demo''],
               cv_digest = ''generated-by-multicloud-operators-subscription''\<rparr>] []
             = Normal (Inr (releaseDemo, None))
     \<and> override (codec envOverrideFails) sub0 releaseDemo = Inl (Err ''override failed'')"
    by (simp add: eval_defs releaseDemo_def)
  have M: "lookupRelease envMarshalFails item0 sub0 ''demo''
             (\<lparr>cv_name = ''demo'', cv_version = ''1.0.0'', cv_tillerVersion = [],
               cv_urls = [''demo''],
               cv_digest = ''generated-by-multicloud-operators-subscription''\<rparr> # []) []
             = Normal (Inr (releaseDemo, None))
     \<and> override (codec envMarshalFails) sub0 releaseDemo = Inr releaseDemo
     \<and> jsonMarshalRelease (codec envMarshalFails) releaseDemo = Inl (Err ''marshal failed'')"
    by (simp add: eval_defs releaseDemo_def)
  note o = chart_failure_policy [where pkgMap = "[]" and ?e0.0 = None
        and rest = "[(''other'', [\<lparr>cv_name = ''other'', cv_version = ''2.0.0'',
                       cv_tillerVersion = [], cv_urls = [''other''],
                       cv_digest = ''generated-by-multicloud-operators-subscription''\<rparr>])]",
      OF S, THEN conjunct1, THEN mp, OF O]
  note m = chart_failure_policy [where pkgMap = "[]" and ?e0.0 = None
        and rest = "[(''other'', [\<lparr>cv_name = ''other'', cv_version = ''2.0.0'',
                       cv_tillerVersion = [], cv_urls = [''other''],
                       cv_digest = ''generated-by-multicloud-operators-subscription''\<rparr>])]",
      OF S, THEN conjunct2, THEN mp, OF M]
  from o m show ?thesis
    by (simp add: eval_defs)
qed

section \<open>The cycle and the stored commit identifier\<close>

lemma doSubscription_Normal_cases:
  assumes "doSubscription E tr ghsi = Normal (tr', ghsi')"
  shows "(\<exists>ta err. cloneGitRepo E tr ghsi = Normal (ta, Inl err) \<and> ghsi' = ghsi)
       \<or> (\<exists>ta. cloneGitRepo E tr ghsi = Normal (ta, Inr (commitID ghsi)) \<and> ghsi' = ghsi)
       \<or> (\<exists>ta cid tb err.
            cloneGitRepo E tr ghsi = Normal (ta, Inr cid)
            \<and> sortClonedGitRepo E ta ghsi = Normal (tb, ghsi', Inl err))
       \<or> (\<exists>ta cid tb g2 index rscDirs tc td err.
            cloneGitRepo E tr ghsi = Normal (ta, Inr cid)
            \<and> sortClonedGitRepo E ta ghsi = Normal (tb, g2, Inr (index, rscDirs))
            \<and> subscribeResources E tb g2 rscDirs = Normal tc
            \<and> subscribeHelmCharts E tc g2 index = Normal (td, ghsi', Some err))
       \<or> (\<exists>ta cid tb g2 index rscDirs tc td g4.
            cloneGitRepo E tr ghsi = Normal (ta, Inr cid)
            \<and> sortClonedGitRepo E ta ghsi = Normal (tb, g2, Inr (index, rscDirs))
            \<and> subscribeResources E tb g2 rscDirs = Normal tc
            \<and> subscribeHelmCharts E tc g2 index = Normal (td, g4, None)
            \<and> ghsi' = g4\<lparr>commitID := cid\<rparr>)"
  using assms
  by (auto simp: doSubscription_def
      split: outcome.splits sum.splits prod.splits option.splits if_splits)

lemma doSubscription_commitID_cases:
  assumes "doSubscription E tr ghsi = Normal (tr', ghsi')"
  shows "commitID ghsi' = commitID ghsi
       \<or> (\<exists>ta cid tb g2 index rscDirs tc td g4.
            cloneGitRepo E tr ghsi = Normal (ta, Inr cid)
            \<and> sortClonedGitRepo E ta ghsi = Normal (tb, g2, Inr (index, rscDirs))
            \<and> subscribeResources E tb g2 rscDirs = Normal tc
            \<and> subscribeHelmCharts E tc g2 index = Normal (td, g4, None)
            \<and> commitID ghsi' = cid)"
  using doSubscription_Normal_cases [OF assms]
proof (elim disjE exE conjE)
  fix ta cid tb err
  assume "sortClonedGitRepo E ta ghsi = Normal (tb, ghsi', Inl err)"
  then show ?thesis by (simp add: sortClonedGitRepo_fields)
next
  fix ta cid tb g2 index rscDirs tc td err
  assume "sortClonedGitRepo E ta ghsi = Normal (tb, g2, Inr (index, rscDirs))"
    and "subscribeHelmCharts E tc g2 index = Normal (td, ghsi', Some err)"
  then show ?thesis
    by (simp add: sortClonedGitRepo_fields subscribeHelmCharts_commitID)
next
  fix ta cid tb g2 index rscDirs tc td g4
  assume "cloneGitRepo E tr ghsi = Normal (ta, Inr cid)"
    and "sortClonedGitRepo E ta ghsi = Normal (tb, g2, Inr (index, rscDirs))"
    and "subscribeResources E tb g2 rscDirs = Normal tc"
    and "subscribeHelmCharts E tc g2 index = Normal (td, g4, None)"
    and "ghsi' = g4\<lparr>commitID := cid\<rparr>"
  then show ?thesis by force
qed simp_all

text \<open>
  The error the chart pass returns is the function's named result, which the loop body
  assigns from the lookup of the release only. When the release of the last package is
  not found and is created, registered and validated without any failure, the pass still
  returns the not-found error of the lookup, and the cycle does not store the identifier.
\<close>

lemma created_release_returns_lookup_error:
  "subscribeHelmCharts envNoRelease [] item0 index0 =
     Normal ([GetHelmRelease \<lparr>nn_namespace = ''subns'', nn_name = ''demo-sub-subns''\<rparr>,
              RegisterTemplate hk0 dplDemo ''subgbhelm-subns/sub'',
              GetHelmRelease \<lparr>nn_namespace = ''subns'', nn_name = ''other-sub-subns''\<rparr>,
              RegisterTemplate hk0 dplOther ''subgbhelm-subns/sub'',
              ValidatePackagesInSubscriptionStatus sub0 [''ch-other-2.0.0'', ''ch-demo-1.0.0'']],
             item0, Some (NotFoundErr ''release not found''))
   \<and> doSubscription envNoRelease [] item0 =
       Normal (trFetch @ trResources @ trCharts, item0)"
  by (simp add: eval_defs)

text \<open>
  C1, as stated, fails on the code. The synchronizer refuses the deployable of the
  ConfigMap: the resource pass stops there (its trace ends with the failed registration
  and the status call, and the validator is not applied), the chart pass runs and returns
  no error, and the cycle stores the fetched identifier.
\<close>

theorem resource_failure_commit_counterexample:
  "subscribeResources envRefuse trFetch item0 dirs0 = Normal (trFetch @ trResourcesRefused)
   \<and> commitID item0 = []
   \<and> doSubscription envRefuse [] item0 =
       Normal (trFetch @ trResourcesRefused @ trCharts, item0\<lparr>commitID := ''c1''\<rparr>)"
  by (simp add: eval_defs)

text \<open>
  C1, amended. A cycle that returns changes the stored identifier only when the fetch
  returned an identifier, classification returned no error, the resource pass returned
  and the chart pass returned no error; the identifier stored is the fetched one. A cycle
  whose fetch, classification or chart pass returns an error leaves the stored identifier
  as it was. The resource pass returns no error to the cycle: whenever classification
  succeeds and the chart pass returns no error, the fetched identifier is stored,
  whatever happened in the resource pass.
\<close>

theorem commitID_update:
  assumes "doSubscription E tr ghsi = Normal (tr', ghsi')"
  shows "(commitID ghsi' \<noteq> commitID ghsi \<longrightarrow>
            (\<exists>ta cid tb g2 index rscDirs tc td g4.
               cloneGitRepo E tr ghsi = Normal (ta, Inr cid)
               \<and> sortClonedGitRepo E ta ghsi = Normal (tb, g2, Inr (index, rscDirs))
               \<and> subscribeResources E tb g2 rscDirs = Normal tc
               \<and> subscribeHelmCharts E tc g2 index = Normal (td, g4, None)
               \<and> commitID ghsi' = cid))
       \<and> (cloneGitRepo E tr ghsi = Normal (tr1, Inl err)
          \<or> cloneGitRepo E tr ghsi = Normal (tr1, Inr cid1)
             \<and> sortClonedGitRepo E tr1 ghsi = Normal (tr2, ghsi2, Inl err)
          \<or> cloneGitRepo E tr ghsi = Normal (tr1, Inr cid1)
             \<and> sortClonedGitRepo E tr1 ghsi = Normal (tr2, ghsi2, Inr (index1, rscDirs1))
             \<and> subscribeResources E tr2 ghsi2 rscDirs1 = Normal tr3
             \<and> subscribeHelmCharts E tr3 ghsi2 index1 = Normal (tr4, ghsi4, Some err)
          \<longrightarrow> commitID ghsi' = commitID ghsi)
       \<and> (cloneGitRepo E tr ghsi = Normal (tr1, Inr cid1)
          \<and> sortClonedGitRepo E tr1 ghsi = Normal (tr2, ghsi2, Inr (index1, rscDirs1))
          \<and> subscribeResources E tr2 ghsi2 rscDirs1 = Normal tr3
          \<and> subscribeHelmCharts E tr3 ghsi2 index1 = Normal (tr4, ghsi4, None)
          \<longrightarrow> commitID ghsi' = cid1)"
proof (intro conjI impI)
  assume "commitID ghsi' \<noteq> commitID ghsi"
  with doSubscription_commitID_cases [OF assms]
  show "\<exists>ta cid tb g2 index rscDirs tc td g4.
               cloneGitRepo E tr ghsi = Normal (ta, Inr cid)
               \<and> sortClonedGitRepo E ta ghsi = Normal (tb, g2, Inr (index, rscDirs))
               \<and> subscribeResources E tb g2 rscDirs = Normal tc
               \<and> subscribeHelmCharts E tc g2 index = Normal (td, g4, None)
               \<and> commitID ghsi' = cid"
    by blast
next
  assume h: "cloneGitRepo E tr ghsi = Normal (tr1, Inl err)
          \<or> cloneGitRepo E tr ghsi = Normal (tr1, Inr cid1)
             \<and> sortClonedGitRepo E tr1 ghsi = Normal (tr2, ghsi2, Inl err)
          \<or> cloneGitRepo E tr ghsi = Normal (tr1, Inr cid1)
             \<and> sortClonedGitRepo E tr1 ghsi = Normal (tr2, ghsi2, Inr (index1, rscDirs1))
             \<and> subscribeResources E tr2 ghsi2 rscDirs1 = Normal tr3
             \<and> subscribeHelmCharts E tr3 ghsi2 index1 = Normal (tr4, ghsi4, Some err)"
  show "commitID ghsi' = commitID ghsi"
  proof (rule disjE [OF doSubscription_commitID_cases [OF assms]])
    assume "\<exists>ta cid tb g2 index rscDirs tc td g4.
            cloneGitRepo E tr ghsi = Normal (ta, Inr cid)
            \<and> sortClonedGitRepo E ta ghsi = Normal (tb, g2, Inr (index, rscDirs))
            \<and> subscribeResources E tb g2 rscDirs = Normal tc
            \<and> subscribeHelmCharts E tc g2 index = Normal (td, g4, None)
            \<and> commitID ghsi' = cid"
    with h have False by auto
    then show ?thesis ..
  qed
next
  assume h: "cloneGitRepo E tr ghsi = Normal (tr1, Inr cid1)
          \<and> sortClonedGitRepo E tr1 ghsi = Normal (tr2, ghsi2, Inr (index1, rscDirs1))
          \<and> subscribeResources E tr2 ghsi2 rscDirs1 = Normal tr3
          \<and> subscribeHelmCharts E tr3 ghsi2 index1 = Normal (tr4, ghsi4, None)"
  with assms show "commitID ghsi' = cid1"
    by (auto simp: doSubscription_def split: if_splits)
qed

theorem commitID_update_witness:
  "doSubscription envWalkFails [] item0 = Normal (trFetch, item0)
   \<and> commitID (item0\<lparr>commitID := ''c1''\<rparr>) = ''c1''
   \<and> doSubscription env0 [] item0 =
       Normal (trFetch @ trResources @ trCharts, item0\<lparr>commitID := ''c1''\<rparr>)"
proof -
  have d1: "doSubscription envWalkFails [] item0 = Normal (trFetch, item0)"
    by (simp add: eval_defs)
  have b: "cloneGitRepo envWalkFails [] item0 = Normal (trFetch, Inl (Err ''lstat failed''))
          \<or> cloneGitRepo envWalkFails [] item0 = Normal (trFetch, Inr ''c1'')
             \<and> sortClonedGitRepo envWalkFails trFetch item0
                 = Normal (trFetch, item0, Inl (Err ''lstat failed''))
          \<or> cloneGitRepo envWalkFails [] item0 = Normal (trFetch, Inr ''c1'')
             \<and> sortClonedGitRepo envWalkFails trFetch item0
                 = Normal (trFetch, item0, Inr (index0, dirs0))
             \<and> subscribeResources envWalkFails trFetch item0 dirs0 = Normal []
             \<and> subscribeHelmCharts envWalkFails [] item0 index0
                 = Normal ([], item0, Some (Err ''lstat failed''))"
    by (simp add: eval_defs)
  have d2: "doSubscription env0 [] item0 =
       Normal (trFetch @ trResources @ trCharts, item0\<lparr>commitID := ''c1''\<rparr>)"
    by (simp add: eval_defs)
  have c: "cloneGitRepo env0 [] item0 = Normal (trFetch, Inr ''c1'')
          \<and> sortClonedGitRepo env0 trFetch item0 = Normal (trFetch, item0, Inr (index0, dirs0))
          \<and> subscribeResources env0 trFetch item0 dirs0 = Normal (trFetch @ trResources)
          \<and> subscribeHelmCharts env0 (trFetch @ trResources) item0 index0
              = Normal (trFetch @ trResources @ trCharts, item0, None)"
    by (simp add: eval_defs)
  note w1 = commitID_update [OF d1, THEN conjunct2, THEN conjunct1, THEN mp, OF b]
  note w2 = commitID_update [OF d2, THEN conjunct2, THEN conjunct2, THEN mp, OF c]
  from w1 w2 d1 d2 show ?thesis by simp
qed




end
